theory Spec2Isabelle
  imports Complex_Main "HOL-Library.Word"
begin

section \<open>JavaScript numbers\<close>

text \<open>
  Every amount, reserve and configuration value of the trading code has the TypeScript
  type \<open>number\<close>: an IEEE 754 binary64 value. A \<open>number\<close> is modelled as a
  rational (the finite doubles are rationals), the two infinities, or NaN. Every
  arithmetic operation computes the exact rational result and rounds it to the nearest
  double, ties to the even significand, as the language prescribes. The sign of zero is
  not represented: \<open>-0\<close> is identified with \<open>0\<close>, which differs from JavaScript only
  in the sign of a quotient by zero.
\<close>

datatype number = Fin rat | PInf | NInf | NaN

text \<open>Number of binary digits of a positive integer; 0 for the others.\<close>

function bit_length :: "int \<Rightarrow> int" where
  "bit_length n = (if n \<le> 0 then 0 else 1 + bit_length (n div 2))"
  by pat_completeness auto
termination
  by (relation "measure nat") auto

declare bit_length.simps [simp del]

text \<open>The binary exponent of a positive rational \<open>x\<close>: the \<open>e\<close> with \<open>2^e \<le> x < 2^(e+1)\<close>.\<close>

definition ilog2 :: "rat \<Rightarrow> int" where
  "ilog2 x = (if 1 \<le> x then bit_length \<lfloor>x\<rfloor> - 1 else - bit_length (\<lceil>1 / x\<rceil> - 1))"

text \<open>Rounding to the nearest integer, a tie going to the even neighbour.\<close>

definition round_half_even :: "rat \<Rightarrow> int" where
  "round_half_even m =
     (let f = \<lfloor>m\<rfloor>; d = m - of_int f
      in if d < 1 / 2 then f
         else if 1 / 2 < d then f + 1
         else if even f then f else f + 1)"

definition round_to :: "rat \<Rightarrow> rat \<Rightarrow> rat" where
  "round_to q x = of_int (round_half_even (x / q)) * q"

text \<open>
  The spacing of the doubles around \<open>x\<close>: 53 significant bits, and the fixed spacing
  \<open>2^-1074\<close> of the subnormal range below \<open>2^-1022\<close>.
\<close>

definition quantum :: "rat \<Rightarrow> rat" where
  "quantum x = 2 powi (max (ilog2 \<bar>x\<bar>) (- 1022) - 52)"

text \<open>Rounding of an exact result to a double: to the nearest multiple of the spacing,
  with an unbounded exponent; a result that rounds to \<open>2^1024\<close> in magnitude
  overflows to an infinity.\<close>

definition nearest_double :: "rat \<Rightarrow> rat" where
  "nearest_double x = round_to (quantum x) x"

definition round_double :: "rat \<Rightarrow> number" where
  "round_double x =
     (let y = nearest_double x
      in if 2 powi 1024 \<le> y then PInf
         else if y \<le> - (2 powi 1024) then NInf
         else Fin y)"

fun js_neg :: "number \<Rightarrow> number" where
  "js_neg (Fin x) = Fin (- x)"
| "js_neg PInf = NInf"
| "js_neg NInf = PInf"
| "js_neg NaN = NaN"

fun js_add :: "number \<Rightarrow> number \<Rightarrow> number" where
  "js_add NaN _ = NaN"
| "js_add _ NaN = NaN"
| "js_add PInf NInf = NaN"
| "js_add NInf PInf = NaN"
| "js_add PInf _ = PInf"
| "js_add NInf _ = NInf"
| "js_add _ PInf = PInf"
| "js_add _ NInf = NInf"
| "js_add (Fin x) (Fin y) = round_double (x + y)"

definition js_sub :: "number \<Rightarrow> number \<Rightarrow> number" where
  "js_sub a b = js_add a (js_neg b)"

text \<open>The sign of a number that is not NaN: \<open>1\<close>, \<open>0\<close> or \<open>-1\<close>.\<close>

fun js_sign :: "number \<Rightarrow> int" where
  "js_sign (Fin x) = (if 0 < x then 1 else if x < 0 then - 1 else 0)"
| "js_sign PInf = 1"
| "js_sign NInf = - 1"
| "js_sign NaN = 0"

definition signed_inf :: "int \<Rightarrow> number" where
  "signed_inf s = (if 0 < s then PInf else if s < 0 then NInf else NaN)"

fun js_mul :: "number \<Rightarrow> number \<Rightarrow> number" where
  "js_mul NaN _ = NaN"
| "js_mul _ NaN = NaN"
| "js_mul (Fin x) (Fin y) = round_double (x * y)"
| "js_mul a b = signed_inf (js_sign a * js_sign b)"

text \<open>Division: \<open>x / 0\<close> is an infinity with the sign of \<open>x\<close> (the zero taken as
  \<open>+0\<close>), \<open>0 / 0\<close> and the quotient of two infinities are NaN, a finite number
  divided by an infinity is \<open>0\<close>.\<close>

fun js_div :: "number \<Rightarrow> number \<Rightarrow> number" where
  "js_div NaN _ = NaN"
| "js_div _ NaN = NaN"
| "js_div (Fin x) (Fin y) =
     (if y = 0 then signed_inf (js_sign (Fin x)) else round_double (x / y))"
| "js_div (Fin x) _ = Fin 0"
| "js_div a (Fin y) = signed_inf (js_sign a * (if y < 0 then - 1 else 1))"
| "js_div _ _ = NaN"

text \<open>The comparisons \<open><\<close>, \<open>\<le>\<close>, \<open>>\<close>, \<open>\<ge>\<close>: false as soon as an operand is NaN.\<close>

fun js_lt :: "number \<Rightarrow> number \<Rightarrow> bool" where
  "js_lt NaN _ = False"
| "js_lt _ NaN = False"
| "js_lt (Fin x) (Fin y) = (x < y)"
| "js_lt PInf _ = False"
| "js_lt _ NInf = False"
| "js_lt NInf _ = True"
| "js_lt _ PInf = True"

fun js_le :: "number \<Rightarrow> number \<Rightarrow> bool" where
  "js_le NaN _ = False"
| "js_le _ NaN = False"
| "js_le a b = (\<not> js_lt b a)"

definition js_gt :: "number \<Rightarrow> number \<Rightarrow> bool" where
  "js_gt a b = js_lt b a"

definition js_ge :: "number \<Rightarrow> number \<Rightarrow> bool" where
  "js_ge a b = js_le b a"

text \<open>\<open>Math.floor\<close>: the floor of a double is a double, so nothing is rounded.\<close>

fun Math_floor :: "number \<Rightarrow> number" where
  "Math_floor (Fin x) = Fin (of_int \<lfloor>x\<rfloor>)"
| "Math_floor a = a"

datatype js_error = RangeError | TypeError | Thrown string

text \<open>The conversion \<open>BigInt(x)\<close> of a number: a RangeError unless \<open>x\<close> is an integer.\<close>

fun BigInt :: "number \<Rightarrow> js_error + int" where
  "BigInt (Fin x) = (if of_int \<lfloor>x\<rfloor> = x then Inr \<lfloor>x\<rfloor> else Inl RangeError)"
| "BigInt _ = Inl RangeError"

section \<open>Pricing engine\<close>

text \<open>\<open>calculateExpectedTokens\<close> and \<open>calculateExpectedSol\<close> of the class
  \<open>SolanaTrader\<close> (solana-trader.ts).\<close>

definition calculateExpectedTokens :: "number \<Rightarrow> number \<Rightarrow> number \<Rightarrow> number" where
  "calculateExpectedTokens solLamports virtualSolReserves virtualTokenReserves =
     (let k = js_mul virtualSolReserves virtualTokenReserves;
          newSolReserves = js_add virtualSolReserves solLamports;
          newTokenReserves = js_div k newSolReserves
      in js_sub virtualTokenReserves newTokenReserves)"

definition calculateExpectedSol :: "number \<Rightarrow> number \<Rightarrow> number \<Rightarrow> number" where
  "calculateExpectedSol tokenLamports virtualSolReserves virtualTokenReserves =
     (let k = js_mul virtualSolReserves virtualTokenReserves;
          newTokenReserves = js_add virtualTokenReserves tokenLamports;
          newSolReserves = js_div k newTokenReserves
      in js_sub virtualSolReserves newSolReserves)"

section \<open>Instruction encoder\<close>

type_synonym u8 = "8 word"

datatype PublicKey = PublicKey string

definition PUMP_FUN_PROGRAM_ID :: PublicKey where
  "PUMP_FUN_PROGRAM_ID = PublicKey ''6EF8rrecthR5Dkzon8Nwu78hRvfCKubJ14M5uBEwF6P''"

definition PUMP_FUN_FEE_RECIPIENT :: PublicKey where
  "PUMP_FUN_FEE_RECIPIENT = PublicKey ''CebN5WGQ4jvEPvsVU4EoHEpgzq1VV7AbCJtGpGYKLXYi''"

definition PUMP_GLOBAL_STATE :: PublicKey where
  "PUMP_GLOBAL_STATE = PublicKey ''4wTV1YmiEkRvAtNtsSGPtUrqRYQMe5SKy2uB4Jjaxnjf''"

text \<open>The two program addresses the code takes from its libraries
  (\<open>SystemProgram.programId\<close> of web3.js, \<open>TOKEN_PROGRAM_ID\<close> of spl-token).\<close>

definition SystemProgram_programId :: PublicKey where
  "SystemProgram_programId = PublicKey ''11111111111111111111111111111111''"

definition TOKEN_PROGRAM_ID :: PublicKey where
  "TOKEN_PROGRAM_ID = PublicKey ''TokenkegQfeZyiNwAJbNbGKPFXCWuBvf9Ss623VQ5DA''"

record AccountMeta =
  pubkey :: PublicKey
  isSigner :: bool
  isWritable :: bool

record TransactionInstruction =
  programId :: PublicKey
  keys :: "AccountMeta list"
  data :: "u8 list"

text \<open>Node's \<open>Buffer\<close>: \<open>Buffer.alloc\<close> gives zero bytes, \<open>copy\<close> writes the source
  at an offset and stops at the end of the target.\<close>

definition Buffer_alloc :: "nat \<Rightarrow> u8 list" where
  "Buffer_alloc n = replicate n 0"

definition Buffer_copy :: "u8 list \<Rightarrow> u8 list \<Rightarrow> nat \<Rightarrow> u8 list" where
  "Buffer_copy src target off =
     take off target @ take (length target - off) src @ drop (off + length src) target"

text \<open>The \<open>n\<close> low bytes of an integer, least significant first.\<close>

fun le_bytes :: "nat \<Rightarrow> int \<Rightarrow> u8 list" where
  "le_bytes 0 v = []"
| "le_bytes (Suc n) v = word_of_int (v mod 256) # le_bytes n (v div 256)"

text \<open>\<open>writeBigUInt64LE\<close> raises a RangeError for a value outside \<open>0 .. 2^64 - 1\<close> and
  for an offset that leaves fewer than 8 bytes.\<close>

definition writeBigUInt64LE :: "int \<Rightarrow> nat \<Rightarrow> u8 list \<Rightarrow> js_error + u8 list" where
  "writeBigUInt64LE v off buf =
     (if v < 0 \<or> 2 ^ 64 \<le> v then Inl RangeError
      else if length buf < off + 8 then Inl RangeError
      else Inr (take off buf @ le_bytes 8 v @ drop (off + 8) buf))"

definition buy_discriminator :: "u8 list" where
  "buy_discriminator = [102, 6, 61, 18, 1, 218, 235, 234]"

definition sell_discriminator :: "u8 list" where
  "sell_discriminator = [51, 230, 133, 164, 1, 127, 131, 173]"

definition buildBuyInstruction ::
  "PublicKey \<Rightarrow> PublicKey \<Rightarrow> PublicKey \<Rightarrow> PublicKey \<Rightarrow> PublicKey \<Rightarrow> number \<Rightarrow> number
     \<Rightarrow> js_error + TransactionInstruction" where
  "buildBuyInstruction buyer mint bondingCurve associatedBondingCurve buyerAta solAmount minTokens =
     (let discriminator = buy_discriminator;
          data0 = Buffer_copy discriminator (Buffer_alloc 24) 0
      in case BigInt minTokens of Inl e \<Rightarrow> Inl e | Inr m \<Rightarrow>
         (case writeBigUInt64LE m 8 data0 of Inl e \<Rightarrow> Inl e | Inr data1 \<Rightarrow>
         (case BigInt solAmount of Inl e \<Rightarrow> Inl e | Inr s \<Rightarrow>
         (case writeBigUInt64LE s 16 data1 of Inl e \<Rightarrow> Inl e | Inr data2 \<Rightarrow>
            Inr \<lparr> programId = PUMP_FUN_PROGRAM_ID,
                  keys =
                    [\<lparr> pubkey = PUMP_GLOBAL_STATE, isSigner = False, isWritable = False \<rparr>,
                     \<lparr> pubkey = PUMP_FUN_FEE_RECIPIENT, isSigner = False, isWritable = True \<rparr>,
                     \<lparr> pubkey = mint, isSigner = False, isWritable = False \<rparr>,
                     \<lparr> pubkey = bondingCurve, isSigner = False, isWritable = True \<rparr>,
                     \<lparr> pubkey = associatedBondingCurve, isSigner = False, isWritable = True \<rparr>,
                     \<lparr> pubkey = buyerAta, isSigner = False, isWritable = True \<rparr>,
                     \<lparr> pubkey = buyer, isSigner = True, isWritable = True \<rparr>,
                     \<lparr> pubkey = SystemProgram_programId, isSigner = False, isWritable = False \<rparr>,
                     \<lparr> pubkey = TOKEN_PROGRAM_ID, isSigner = False, isWritable = False \<rparr>],
                  data = data2 \<rparr>))))"

definition buildSellInstruction ::
  "PublicKey \<Rightarrow> PublicKey \<Rightarrow> PublicKey \<Rightarrow> PublicKey \<Rightarrow> PublicKey \<Rightarrow> number \<Rightarrow> number
     \<Rightarrow> js_error + TransactionInstruction" where
  "buildSellInstruction seller mint bondingCurve associatedBondingCurve sellerAta tokenAmount minSol =
     (let discriminator = sell_discriminator;
          data0 = Buffer_copy discriminator (Buffer_alloc 24) 0
      in case BigInt tokenAmount of Inl e \<Rightarrow> Inl e | Inr t \<Rightarrow>
         (case writeBigUInt64LE t 8 data0 of Inl e \<Rightarrow> Inl e | Inr data1 \<Rightarrow>
         (case BigInt minSol of Inl e \<Rightarrow> Inl e | Inr s \<Rightarrow>
         (case writeBigUInt64LE s 16 data1 of Inl e \<Rightarrow> Inl e | Inr data2 \<Rightarrow>
            Inr \<lparr> programId = PUMP_FUN_PROGRAM_ID,
                  keys =
                    [\<lparr> pubkey = PUMP_GLOBAL_STATE, isSigner = False, isWritable = False \<rparr>,
                     \<lparr> pubkey = PUMP_FUN_FEE_RECIPIENT, isSigner = False, isWritable = True \<rparr>,
                     \<lparr> pubkey = mint, isSigner = False, isWritable = False \<rparr>,
                     \<lparr> pubkey = bondingCurve, isSigner = False, isWritable = True \<rparr>,
                     \<lparr> pubkey = associatedBondingCurve, isSigner = False, isWritable = True \<rparr>,
                     \<lparr> pubkey = sellerAta, isSigner = False, isWritable = True \<rparr>,
                     \<lparr> pubkey = seller, isSigner = True, isWritable = True \<rparr>,
                     \<lparr> pubkey = SystemProgram_programId, isSigner = False, isWritable = False \<rparr>,
                     \<lparr> pubkey = TOKEN_PROGRAM_ID, isSigner = False, isWritable = False \<rparr>],
                  data = data2 \<rparr>))))"

text \<open>Reading an 8-byte field back as the unsigned little-endian integer it holds.\<close>

fun le_value :: "u8 list \<Rightarrow> int" where
  "le_value [] = 0"
| "le_value (b # bs) = uint b + 256 * le_value bs"

section \<open>Trade orchestrator\<close>

text \<open>
  The class \<open>SolanaTrader\<close>. Its collaborators (the key constructor of web3.js, the
  derivation of the associated token address, the RPC connection) are a record of
  functions; a call that throws returns \<open>Inl\<close>. Every call that goes to the network is
  recorded, in order, in the list the operations return beside their result.
\<close>

record config =
  maxBuyAmount :: number
  slippageBps :: number

definition LAMPORTS_PER_SOL :: number where
  "LAMPORTS_PER_SOL = Fin 1000000000"

record PumpFunToken =
  mint :: string
  bonding_curve :: string
  associated_bonding_curve :: string
  virtual_sol_reserves :: number
  virtual_token_reserves :: number

record Keypair =
  publicKey :: PublicKey

record SolanaTrader =
  wallet :: "Keypair option"

text \<open>The error message of a failed trade: the two messages the trader writes itself,
  or the message of the error it caught.\<close>

datatype trade_error =
    WalletNotInitialized
  | ExceedsMaxBuyLimit number
  | Caught js_error

record TradeResult =
  success :: bool
  signature :: "string option"
  error :: "trade_error option"
  amountIn :: number
  amountOut :: "number option"

record Transaction =
  instructions :: "TransactionInstruction list"
  recentBlockhash :: string
  feePayer :: PublicKey

datatype net_call =
    GetAccountInfo PublicKey
  | GetLatestBlockhash
  | SendAndConfirmTransaction Transaction

record externals =
  new_PublicKey :: "string \<Rightarrow> js_error + PublicKey"
  getAssociatedTokenAddress :: "PublicKey \<Rightarrow> PublicKey \<Rightarrow> js_error + PublicKey"
  createAssociatedTokenAccountInstruction ::
    "PublicKey \<Rightarrow> PublicKey \<Rightarrow> PublicKey \<Rightarrow> PublicKey \<Rightarrow> TransactionInstruction"
  getAccountInfo :: "PublicKey \<Rightarrow> js_error + unit option"
  getLatestBlockhash :: "js_error + string"
  sendAndConfirmTransaction :: "Transaction \<Rightarrow> js_error + string"

text \<open>The object literal of the failure returns: \<open>success: false\<close>, the error and the
  amount asked for; \<open>signature\<close> and \<open>amountOut\<close> are left out.\<close>

definition failed :: "trade_error \<Rightarrow> number \<Rightarrow> TradeResult" where
  "failed e amount =
     \<lparr> success = False, signature = None, error = Some e, amountIn = amount, amountOut = None \<rparr>"

text \<open>The body of the \<open>try\<close> block of \<open>buyToken\<close>.\<close>

definition buy_attempt ::
  "externals \<Rightarrow> config \<Rightarrow> Keypair \<Rightarrow> PumpFunToken \<Rightarrow> number
     \<Rightarrow> (js_error + TradeResult) \<times> net_call list" where
  "buy_attempt ext cfg w token solAmount =
     (case new_PublicKey ext (mint token) of Inl e \<Rightarrow> (Inl e, []) | Inr mintKey \<Rightarrow>
     (case new_PublicKey ext (bonding_curve token) of Inl e \<Rightarrow> (Inl e, []) | Inr bondingCurve \<Rightarrow>
     (case new_PublicKey ext (associated_bonding_curve token) of Inl e \<Rightarrow> (Inl e, [])
      | Inr associatedBondingCurve \<Rightarrow>
     (case getAssociatedTokenAddress ext mintKey (publicKey w) of Inl e \<Rightarrow> (Inl e, [])
      | Inr ata \<Rightarrow>
     (case getAccountInfo ext ata of Inl e \<Rightarrow> (Inl e, [GetAccountInfo ata]) | Inr ataInfo \<Rightarrow>
     (let created =
            (case ataInfo of
               None \<Rightarrow> [createAssociatedTokenAccountInstruction ext (publicKey w) ata (publicKey w) mintKey]
             | Some _ \<Rightarrow> []);
          lamports = Math_floor (js_mul solAmount LAMPORTS_PER_SOL);
          expectedTokens =
            calculateExpectedTokens lamports (virtual_sol_reserves token) (virtual_token_reserves token);
          minTokens =
            Math_floor (js_mul expectedTokens (js_sub (Fin 1) (js_div (slippageBps cfg) (Fin 10000))))
      in case buildBuyInstruction (publicKey w) mintKey bondingCurve associatedBondingCurve ata
                lamports minTokens of
           Inl e \<Rightarrow> (Inl e, [GetAccountInfo ata])
         | Inr buyInstruction \<Rightarrow>
     (case getLatestBlockhash ext of
        Inl e \<Rightarrow> (Inl e, [GetAccountInfo ata, GetLatestBlockhash])
      | Inr blockhash \<Rightarrow>
     (let transaction =
            \<lparr> instructions = created @ [buyInstruction], recentBlockhash = blockhash,
              feePayer = publicKey w \<rparr>;
          calls = [GetAccountInfo ata, GetLatestBlockhash, SendAndConfirmTransaction transaction]
      in case sendAndConfirmTransaction ext transaction of
           Inl e \<Rightarrow> (Inl e, calls)
         | Inr sig \<Rightarrow>
             (Inr \<lparr> success = True, signature = Some sig, error = None, amountIn = solAmount,
                    amountOut = Some (js_div expectedTokens (Fin 1000000)) \<rparr>, calls)))))))))"

definition buyToken ::
  "externals \<Rightarrow> config \<Rightarrow> SolanaTrader \<Rightarrow> PumpFunToken \<Rightarrow> number
     \<Rightarrow> TradeResult \<times> net_call list" where
  "buyToken ext cfg this token solAmount =
     (case wallet this of
        None \<Rightarrow> (failed WalletNotInitialized solAmount, [])
      | Some w \<Rightarrow>
          if js_gt solAmount (maxBuyAmount cfg)
          then (failed (ExceedsMaxBuyLimit (maxBuyAmount cfg)) solAmount, [])
          else (case buy_attempt ext cfg w token solAmount of
                  (Inl e, calls) \<Rightarrow> (failed (Caught e) solAmount, calls)
                | (Inr r, calls) \<Rightarrow> (r, calls)))"

text \<open>The body of the \<open>try\<close> block of \<open>sellToken\<close>.\<close>

definition sell_attempt ::
  "externals \<Rightarrow> config \<Rightarrow> Keypair \<Rightarrow> PumpFunToken \<Rightarrow> number
     \<Rightarrow> (js_error + TradeResult) \<times> net_call list" where
  "sell_attempt ext cfg w token tokenAmount =
     (case new_PublicKey ext (mint token) of Inl e \<Rightarrow> (Inl e, []) | Inr mintKey \<Rightarrow>
     (case new_PublicKey ext (bonding_curve token) of Inl e \<Rightarrow> (Inl e, []) | Inr bondingCurve \<Rightarrow>
     (case new_PublicKey ext (associated_bonding_curve token) of Inl e \<Rightarrow> (Inl e, [])
      | Inr associatedBondingCurve \<Rightarrow>
     (case getAssociatedTokenAddress ext mintKey (publicKey w) of Inl e \<Rightarrow> (Inl e, [])
      | Inr ata \<Rightarrow>
     (let tokenLamports = Math_floor (js_mul tokenAmount (Fin 1000000));
          expectedSol =
            calculateExpectedSol tokenLamports (virtual_sol_reserves token) (virtual_token_reserves token);
          minSol =
            Math_floor (js_mul expectedSol (js_sub (Fin 1) (js_div (slippageBps cfg) (Fin 10000))))
      in case buildSellInstruction (publicKey w) mintKey bondingCurve associatedBondingCurve ata
                tokenLamports minSol of
           Inl e \<Rightarrow> (Inl e, [])
         | Inr sellInstruction \<Rightarrow>
     (case getLatestBlockhash ext of
        Inl e \<Rightarrow> (Inl e, [GetLatestBlockhash])
      | Inr blockhash \<Rightarrow>
     (let transaction =
            \<lparr> instructions = [sellInstruction], recentBlockhash = blockhash,
              feePayer = publicKey w \<rparr>;
          calls = [GetLatestBlockhash, SendAndConfirmTransaction transaction]
      in case sendAndConfirmTransaction ext transaction of
           Inl e \<Rightarrow> (Inl e, calls)
         | Inr sig \<Rightarrow>
             (Inr \<lparr> success = True, signature = Some sig, error = None, amountIn = tokenAmount,
                    amountOut = Some (js_div expectedSol LAMPORTS_PER_SOL) \<rparr>, calls))))))))"

definition sellToken ::
  "externals \<Rightarrow> config \<Rightarrow> SolanaTrader \<Rightarrow> PumpFunToken \<Rightarrow> number
     \<Rightarrow> TradeResult \<times> net_call list" where
  "sellToken ext cfg this token tokenAmount =
     (case wallet this of
        None \<Rightarrow> (failed WalletNotInitialized tokenAmount, [])
      | Some w \<Rightarrow>
          (case sell_attempt ext cfg w token tokenAmount of
             (Inl e, calls) \<Rightarrow> (failed (Caught e) tokenAmount, calls)
           | (Inr r, calls) \<Rightarrow> (r, calls)))"

section \<open>Stream client\<close>

text \<open>
  The class \<open>PumpFunWebSocket\<close> (websocket-monitor.ts). The record holds the fields of
  the object and, after them, the part of the runtime its methods act on: the pending
  \<open>setTimeout\<close> callbacks (each holds its delay in milliseconds and runs
  \<open>connect()\<close> when it fires), the number of sockets constructed so far (a socket is
  named by its index), and the trace of what the object did to the outside. The counter
  \<open>reconnectAttempts\<close> only ever holds \<open>0 .. 5\<close> and the delay is a whole number
  of milliseconds, so both are natural numbers (double arithmetic is exact on them).
\<close>

datatype json =
    JNull
  | JBool bool
  | JNumber number
  | JString string
  | JArray "json list"
  | JObject "(string \<times> json) list"

text \<open>A registered callback: its name, and whether a call of it on an event returns
  (\<open>None\<close>) or throws. Calling it is recorded in the trace under its name; what else the
  callback does is not part of the model.\<close>

datatype callback = Callback nat "json \<Rightarrow> js_error option"

fun callback_name :: "callback \<Rightarrow> nat" where
  "callback_name (Callback n f) = n"

fun call :: "callback \<Rightarrow> json \<Rightarrow> js_error option" where
  "call (Callback n f) event = f event"

datatype control =
    SubscribeNewToken
  | SubscribeTokenTrade "string list"
  | UnsubscribeTokenTrade "string list"

datatype effect =
    ConsoleLog string
  | ConsoleError string
  | ConsoleLogReconnect nat
  | NewWebSocket nat
  | Send nat control
  | CloseSocket nat
  | Resolve nat
  | Reject nat
  | CallNewToken nat json
  | CallTrade nat json

record PumpFunWebSocket =
  ws :: "nat option"
  reconnectAttempts :: nat
  maxReconnectAttempts :: nat
  onNewToken :: "callback option"
  onTrade :: "callback option"
  subscribedTokens :: "string set"
  isConnected :: bool
  timers :: "nat list"
  sockets :: nat
  trace :: "effect list"

definition new_PumpFunWebSocket :: PumpFunWebSocket where
  "new_PumpFunWebSocket =
     \<lparr> ws = None, reconnectAttempts = 0, maxReconnectAttempts = 5, onNewToken = None,
       onTrade = None, subscribedTokens = {}, isConnected = False, timers = [], sockets = 0,
       trace = [] \<rparr>"

text \<open>Appending to the trace.\<close>

definition emit :: "effect list \<Rightarrow> PumpFunWebSocket \<Rightarrow> PumpFunWebSocket" where
  "emit es c = c\<lparr> trace := trace c @ es \<rparr>"

text \<open>\<open>connect()\<close> constructs a socket and registers the four listeners below on it.\<close>

definition connect :: "PumpFunWebSocket \<Rightarrow> PumpFunWebSocket" where
  "connect c = emit [NewWebSocket (sockets c)] (c\<lparr> ws := Some (sockets c), sockets := Suc (sockets c) \<rparr>)"

definition on_open :: "nat \<Rightarrow> PumpFunWebSocket \<Rightarrow> PumpFunWebSocket" where
  "on_open sock c =
     emit [ConsoleLog ''Connected to pump.fun WebSocket'', Resolve sock]
       (c\<lparr> isConnected := True, reconnectAttempts := 0 \<rparr>)"

text \<open>Reading the property \<open>txType\<close> of a parsed frame: a TypeError on \<open>null\<close>,
  \<open>undefined\<close> (here \<open>None\<close>) on a value that has no such property.\<close>

fun txType :: "json \<Rightarrow> js_error + json option" where
  "txType JNull = Inl TypeError"
| "txType (JObject props) = Inr (map_of props ''txType'')"
| "txType _ = Inr None"

text \<open>\<open>handleMessage\<close> returns the error it throws, if any, and the client as the call
  leaves it: a handler that throws has been called.\<close>

definition handleMessage ::
  "json \<Rightarrow> PumpFunWebSocket \<Rightarrow> js_error option \<times> PumpFunWebSocket" where
  "handleMessage message c =
     (case txType message of
        Inl e \<Rightarrow> (Some e, c)
      | Inr t \<Rightarrow>
          if t = Some (JString ''create'') \<and> onNewToken c \<noteq> None
          then (call (the (onNewToken c)) message,
                emit [CallNewToken (callback_name (the (onNewToken c))) message] c)
          else if (t = Some (JString ''buy'') \<or> t = Some (JString ''sell'')) \<and> onTrade c \<noteq> None
          then (call (the (onTrade c)) message,
                emit [CallTrade (callback_name (the (onTrade c))) message] c)
          else (None, c))"

text \<open>The \<open>message\<close> listener; \<open>parse\<close> is \<open>JSON.parse\<close>, \<open>None\<close> where it throws.
  Its \<open>catch\<close> logs whatever was thrown in the \<open>try\<close>, by the parser, by the read of the
  tag or by a handler.\<close>

definition on_message ::
  "(string \<Rightarrow> json option) \<Rightarrow> nat \<Rightarrow> string \<Rightarrow> PumpFunWebSocket \<Rightarrow> PumpFunWebSocket" where
  "on_message parse sock frame c =
     (case parse frame of
        None \<Rightarrow> emit [ConsoleError ''Error parsing WebSocket message:''] c
      | Some message \<Rightarrow>
          (case handleMessage message c of
             (Some e, c') \<Rightarrow> emit [ConsoleError ''Error parsing WebSocket message:''] c'
           | (None, c') \<Rightarrow> c'))"

definition attemptReconnect :: "PumpFunWebSocket \<Rightarrow> PumpFunWebSocket" where
  "attemptReconnect c =
     (if maxReconnectAttempts c \<le> reconnectAttempts c
      then emit [ConsoleError ''Max reconnection attempts reached''] c
      else
        (let attempts = Suc (reconnectAttempts c);
             delay = min (1000 * 2 ^ attempts) 30000
         in emit [ConsoleLogReconnect delay]
              (c\<lparr> reconnectAttempts := attempts, timers := timers c @ [delay] \<rparr>)))"

definition on_close :: "nat \<Rightarrow> PumpFunWebSocket \<Rightarrow> PumpFunWebSocket" where
  "on_close sock c =
     attemptReconnect (emit [ConsoleLog ''WebSocket connection closed''] (c\<lparr> isConnected := False \<rparr>))"

definition on_error :: "nat \<Rightarrow> PumpFunWebSocket \<Rightarrow> PumpFunWebSocket" where
  "on_error sock c =
     (if \<not> isConnected c then emit [ConsoleError ''WebSocket error:'', Reject sock] c
      else emit [ConsoleError ''WebSocket error:''] c)"

text \<open>The callback \<open>attemptReconnect\<close> hands to \<open>setTimeout\<close>: the \<open>i\<close>-th pending
  timer fires and runs \<open>connect()\<close>, with a rejection handler on the promise it
  returns.\<close>

definition timer_fires :: "nat \<Rightarrow> PumpFunWebSocket \<Rightarrow> PumpFunWebSocket" where
  "timer_fires i c =
     (if i < length (timers c)
      then connect (c\<lparr> timers := take i (timers c) @ drop (Suc i) (timers c) \<rparr>)
      else c)"

text \<open>The rejection handler of a reconnect attempt: it runs, after the listeners of the
  event that rejected the promise, when \<open>connect()\<close> called by a timer fails.\<close>

definition reconnection_failed :: "PumpFunWebSocket \<Rightarrow> PumpFunWebSocket" where
  "reconnection_failed c = emit [ConsoleError ''Reconnection failed:''] c"

text \<open>
  The three methods that send a control frame call \<open>ws.send\<close> of the socket library.
  What that call does depends on the state of the socket, which the library owns: it
  throws while the socket is still connecting, and a socket that is closing or closed
  does not transmit the frame. The outcome of the call is therefore an argument
  \<open>ws_send\<close> of the methods: \<open>Inl e\<close> when it throws \<open>e\<close>, \<open>Inr True\<close> when the frame
  is transmitted, \<open>Inr False\<close> when it returns without transmitting. The methods
  return the error thrown past their caller, if any, and the client as the call leaves
  it: what was assigned before the throw stays assigned.
\<close>

definition send_frame ::
  "(nat \<Rightarrow> control \<Rightarrow> js_error + bool) \<Rightarrow> control \<Rightarrow> string \<Rightarrow> PumpFunWebSocket
     \<Rightarrow> js_error option \<times> PumpFunWebSocket" where
  "send_frame ws_send frame logged c =
     (case ws c of
        Some sock \<Rightarrow>
          if isConnected c
          then (case ws_send sock frame of
                  Inl e \<Rightarrow> (Some e, c)
                | Inr transmitted \<Rightarrow>
                    (None, emit ((if transmitted then [Send sock frame] else []) @ [ConsoleLog logged]) c))
          else (None, c)
      | None \<Rightarrow> (None, c))"

definition subscribeToNewTokens ::
  "(nat \<Rightarrow> control \<Rightarrow> js_error + bool) \<Rightarrow> callback \<Rightarrow> PumpFunWebSocket
     \<Rightarrow> js_error option \<times> PumpFunWebSocket" where
  "subscribeToNewTokens ws_send cb c =
     (let c1 = c\<lparr> onNewToken := Some cb \<rparr>
      in send_frame ws_send SubscribeNewToken ''Subscribed to new token events'' c1)"

definition subscribeToToken ::
  "(nat \<Rightarrow> control \<Rightarrow> js_error + bool) \<Rightarrow> string \<Rightarrow> callback option \<Rightarrow> PumpFunWebSocket
     \<Rightarrow> js_error option \<times> PumpFunWebSocket" where
  "subscribeToToken ws_send mintAddress cb c =
     (let c1 = (case cb of Some f \<Rightarrow> c\<lparr> onTrade := Some f \<rparr> | None \<Rightarrow> c);
          c2 = c1\<lparr> subscribedTokens := insert mintAddress (subscribedTokens c1) \<rparr>
      in send_frame ws_send (SubscribeTokenTrade [mintAddress])
           (''Subscribed to trades for token: '' @ mintAddress) c2)"

definition unsubscribeFromToken ::
  "(nat \<Rightarrow> control \<Rightarrow> js_error + bool) \<Rightarrow> string \<Rightarrow> PumpFunWebSocket
     \<Rightarrow> js_error option \<times> PumpFunWebSocket" where
  "unsubscribeFromToken ws_send mintAddress c =
     (let c1 = c\<lparr> subscribedTokens := subscribedTokens c - {mintAddress} \<rparr>
      in send_frame ws_send (UnsubscribeTokenTrade [mintAddress])
           (''Unsubscribed from token: '' @ mintAddress) c1)"

definition disconnect :: "PumpFunWebSocket \<Rightarrow> PumpFunWebSocket" where
  "disconnect c =
     (case ws c of
        Some sock \<Rightarrow>
          emit [CloseSocket sock, ConsoleLog ''Disconnected from WebSocket'']
            (c\<lparr> ws := None, isConnected := False \<rparr>)
      | None \<Rightarrow> c)"

text \<open>A run of consecutive failed attempts: the pending timer fires, the new socket
  reports an error and closes, without ever opening. The error listener rejects the
  promise of the attempt when the client is not connected, and the rejection handler
  of that attempt then runs, after the close listener.\<close>

definition failed_attempt :: "PumpFunWebSocket \<Rightarrow> PumpFunWebSocket" where
  "failed_attempt c =
     (let c1 = timer_fires 0 c;
          sock = sockets c;
          c2 = on_close sock (on_error sock c1)
      in if timers c \<noteq> [] \<and> \<not> isConnected c1 then reconnection_failed c2 else c2)"

text \<open>The state after the connection closed and \<open>n\<close> reconnect attempts failed in a
  row.\<close>

definition after_failures :: "nat \<Rightarrow> nat \<Rightarrow> PumpFunWebSocket \<Rightarrow> PumpFunWebSocket" where
  "after_failures n sock c = (failed_attempt ^^ n) (on_close sock c)"

section \<open>The specification's terms\<close>

text \<open>The account list the specification requires of both directions, in its order:
  global curve-config account (read-only), fee recipient (writable), mint (read-only),
  bonding curve (writable), associated bonding curve (writable), the trader's token
  account (writable), the trader's wallet (writable, signer), the system program
  (read-only), the token program (read-only).\<close>

definition required_accounts ::
  "PublicKey \<Rightarrow> PublicKey \<Rightarrow> PublicKey \<Rightarrow> PublicKey \<Rightarrow> PublicKey \<Rightarrow> AccountMeta list" where
  "required_accounts trader mintKey bondingCurve associatedBondingCurve traderAta =
     [\<lparr> pubkey = PUMP_GLOBAL_STATE, isSigner = False, isWritable = False \<rparr>,
      \<lparr> pubkey = PUMP_FUN_FEE_RECIPIENT, isSigner = False, isWritable = True \<rparr>,
      \<lparr> pubkey = mintKey, isSigner = False, isWritable = False \<rparr>,
      \<lparr> pubkey = bondingCurve, isSigner = False, isWritable = True \<rparr>,
      \<lparr> pubkey = associatedBondingCurve, isSigner = False, isWritable = True \<rparr>,
      \<lparr> pubkey = traderAta, isSigner = False, isWritable = True \<rparr>,
      \<lparr> pubkey = trader, isSigner = True, isWritable = True \<rparr>,
      \<lparr> pubkey = SystemProgram_programId, isSigner = False, isWritable = False \<rparr>,
      \<lparr> pubkey = TOKEN_PROGRAM_ID, isSigner = False, isWritable = False \<rparr>]"

text \<open>Collaborators, configuration and a token for the concrete instances below: every
  call succeeds, the receiving account does not exist yet.\<close>

definition example_externals :: externals where
  "example_externals =
     \<lparr> new_PublicKey = (\<lambda>s. Inr (PublicKey s)),
       getAssociatedTokenAddress = (\<lambda>m owner. Inr (PublicKey ''ata'')),
       createAssociatedTokenAccountInstruction =
         (\<lambda>payer ata owner m. \<lparr> programId = PublicKey ''ATokenProgram'', keys = [], data = [] \<rparr>),
       getAccountInfo = (\<lambda>a. Inr None),
       getLatestBlockhash = Inr ''blockhash'',
       sendAndConfirmTransaction = (\<lambda>t. Inr ''signature'') \<rparr>"

definition example_config :: config where
  "example_config = \<lparr> maxBuyAmount = Fin 1, slippageBps = Fin 500 \<rparr>"

definition example_token :: PumpFunToken where
  "example_token =
     \<lparr> mint = ''mint'', bonding_curve = ''curve'', associated_bonding_curve = ''vault'',
       virtual_sol_reserves = Fin 30000000000, virtual_token_reserves = Fin 1000000000000 \<rparr>"

text \<open>The type tags the feed's frames are recognised by.\<close>

definition recognised :: "json option \<Rightarrow> bool" where
  "recognised t \<longleftrightarrow> t = Some (JString ''create'') \<or> t = Some (JString ''buy'') \<or> t = Some (JString ''sell'')"

text \<open>A stand-in for \<open>JSON.parse\<close> on three frames: one that it parses to an object
  with an unknown tag, the frame \<open>null\<close>, and one that it rejects.\<close>

definition example_parse :: "string \<Rightarrow> json option" where
  "example_parse s =
     (if s = ''ping'' then Some (JObject [(''txType'', JString ''ping'')])
      else if s = ''null'' then Some JNull
      else None)"

text \<open>A client whose socket was opened and then closed by the peer: the first reconnect
  timer is pending.\<close>

definition peer_closed :: PumpFunWebSocket where
  "peer_closed = on_close 0 (on_open 0 (connect new_PumpFunWebSocket))"

section \<open>Instruction encoder: payload and account list\<close>

lemma length_discriminator [simp]:
  "length buy_discriminator = 8" "length sell_discriminator = 8"
  by (simp_all add: buy_discriminator_def sell_discriminator_def)

lemma Buffer_copy_alloc:
  "length d = 8 \<Longrightarrow> Buffer_copy d (Buffer_alloc 24) 0 = d @ replicate 16 0"
  by (simp add: Buffer_copy_def Buffer_alloc_def)

lemma length_le_bytes [simp]: "length (le_bytes n v) = n"
  by (induction n arbitrary: v) auto

lemma BigInt_of_int [simp]: "BigInt (Fin (of_int i)) = Inr i"
  by simp

lemma write_first_field:
  assumes "length d = 8" "0 \<le> m" "m < 2 ^ 64"
  shows "writeBigUInt64LE m 8 (d @ replicate 16 0) = Inr (d @ le_bytes 8 m @ replicate 8 0)"
  using assms by (simp add: writeBigUInt64LE_def)

lemma write_second_field:
  assumes "length d = 8" "0 \<le> s" "s < 2 ^ 64"
  shows "writeBigUInt64LE s 16 (d @ le_bytes 8 m @ replicate 8 0) = Inr (d @ le_bytes 8 m @ le_bytes 8 s)"
  using assms by (simp add: writeBigUInt64LE_def)

lemma buildBuyInstruction_ok:
  assumes "0 \<le> m" "m < 2 ^ 64" "0 \<le> s" "s < 2 ^ 64"
  shows "buildBuyInstruction b mk bc abc ata (Fin (of_int s)) (Fin (of_int m)) =
           Inr \<lparr> programId = PUMP_FUN_PROGRAM_ID,
                 keys = required_accounts b mk bc abc ata,
                 data = buy_discriminator @ le_bytes 8 m @ le_bytes 8 s \<rparr>"
  using assms
  by (simp add: buildBuyInstruction_def Buffer_copy_alloc write_first_field write_second_field
      required_accounts_def)

lemma buildSellInstruction_ok:
  assumes "0 \<le> t" "t < 2 ^ 64" "0 \<le> s" "s < 2 ^ 64"
  shows "buildSellInstruction b mk bc abc ata (Fin (of_int t)) (Fin (of_int s)) =
           Inr \<lparr> programId = PUMP_FUN_PROGRAM_ID,
                 keys = required_accounts b mk bc abc ata,
                 data = sell_discriminator @ le_bytes 8 t @ le_bytes 8 s \<rparr>"
  using assms
  by (simp add: buildSellInstruction_def Buffer_copy_alloc write_first_field write_second_field
      required_accounts_def)

lemma le_value_le_bytes: "le_value (le_bytes n v) = v mod 256 ^ n"
proof (induction n arbitrary: v)
  case 0
  then show ?case by simp
next
  case (Suc n)
  have "uint (word_of_int (v mod 256) :: u8) = v mod 256"
    by (simp add: uint_word_of_int)
  moreover have "v mod (256 * 256 ^ n) = 256 * (v div 256 mod 256 ^ n) + v mod 256"
    by (rule zmod_zmult2_eq) simp
  ultimately show ?case using Suc by simp
qed

lemma le_value_u64: "0 \<le> v \<Longrightarrow> v < 2 ^ 64 \<Longrightarrow> le_value (le_bytes 8 v) = v"
  by (simp add: le_value_le_bytes)

lemma buildBuyInstruction_keys:
  "buildBuyInstruction trader mintKey bc abc ata solAmount minTokens = Inr ins \<Longrightarrow>
   keys ins = required_accounts trader mintKey bc abc ata"
  by (auto simp: buildBuyInstruction_def required_accounts_def Let_def split: sum.splits)

lemma buildSellInstruction_keys:
  "buildSellInstruction trader mintKey bc abc ata tokenAmount minSol = Inr ins \<Longrightarrow>
   keys ins = required_accounts trader mintKey bc abc ata"
  by (auto simp: buildSellInstruction_def required_accounts_def Let_def split: sum.splits)

text \<open>
  Claim C3. Every buy and every sell instruction the encoder emits carries the same nine
  account references, in the order and with the attributes the specification lists:
  global state (read-only), fee recipient (writable), mint (read-only), bonding curve
  (writable), associated bonding curve (writable), the trader's token account (writable),
  the trader's wallet (writable, signer), system program (read-only), token program
  (read-only).
\<close>

theorem account_list_order:
  "(buildBuyInstruction trader mintKey bc abc ata solAmount minTokens = Inr ins \<longrightarrow>
      keys ins = required_accounts trader mintKey bc abc ata) \<and>
   (buildSellInstruction trader mintKey bc abc ata tokenAmount minSol = Inr ins' \<longrightarrow>
      keys ins' = required_accounts trader mintKey bc abc ata) \<and>
   length (required_accounts trader mintKey bc abc ata) = 9"
  using buildBuyInstruction_keys buildSellInstruction_keys
  by (simp add: required_accounts_def)

theorem account_list_order_witness:
  "buildBuyInstruction (PublicKey ''trader'') (PublicKey ''mint'') (PublicKey ''curve'')
      (PublicKey ''vault'') (PublicKey ''ata'') (Fin 1000) (Fin 990) =
     Inr \<lparr> programId = PUMP_FUN_PROGRAM_ID,
           keys = required_accounts (PublicKey ''trader'') (PublicKey ''mint'') (PublicKey ''curve'')
                    (PublicKey ''vault'') (PublicKey ''ata''),
           data = buy_discriminator @ le_bytes 8 990 @ le_bytes 8 1000 \<rparr> \<and>
   buildSellInstruction (PublicKey ''trader'') (PublicKey ''mint'') (PublicKey ''curve'')
      (PublicKey ''vault'') (PublicKey ''ata'') (Fin 1000) (Fin 990) =
     Inr \<lparr> programId = PUMP_FUN_PROGRAM_ID,
           keys = required_accounts (PublicKey ''trader'') (PublicKey ''mint'') (PublicKey ''curve'')
                    (PublicKey ''vault'') (PublicKey ''ata''),
           data = sell_discriminator @ le_bytes 8 1000 @ le_bytes 8 990 \<rparr> \<and>
   length (required_accounts (PublicKey ''trader'') (PublicKey ''mint'') (PublicKey ''curve'')
            (PublicKey ''vault'') (PublicKey ''ata'')) = 9"
proof -
  have b: "buildBuyInstruction (PublicKey ''trader'') (PublicKey ''mint'') (PublicKey ''curve'')
      (PublicKey ''vault'') (PublicKey ''ata'') (Fin 1000) (Fin 990) =
     Inr \<lparr> programId = PUMP_FUN_PROGRAM_ID,
           keys = required_accounts (PublicKey ''trader'') (PublicKey ''mint'') (PublicKey ''curve'')
                    (PublicKey ''vault'') (PublicKey ''ata''),
           data = buy_discriminator @ le_bytes 8 990 @ le_bytes 8 1000 \<rparr>"
    using buildBuyInstruction_ok [of 990 1000] by simp
  have s: "buildSellInstruction (PublicKey ''trader'') (PublicKey ''mint'') (PublicKey ''curve'')
      (PublicKey ''vault'') (PublicKey ''ata'') (Fin 1000) (Fin 990) =
     Inr \<lparr> programId = PUMP_FUN_PROGRAM_ID,
           keys = required_accounts (PublicKey ''trader'') (PublicKey ''mint'') (PublicKey ''curve'')
                    (PublicKey ''vault'') (PublicKey ''ata''),
           data = sell_discriminator @ le_bytes 8 1000 @ le_bytes 8 990 \<rparr>"
    using buildSellInstruction_ok [of 1000 990] by simp
  from account_list_order [of "PublicKey ''trader''" "PublicKey ''mint''" "PublicKey ''curve''"
      "PublicKey ''vault''" "PublicKey ''ata''" "Fin 1000" "Fin 990" _ "Fin 1000" "Fin 990"]
  show ?thesis using b s by simp
qed

section \<open>Trade orchestrator: the guards\<close>

text \<open>
  Claim C9. With no wallet loaded, \<open>buyToken\<close> and \<open>sellToken\<close> return (they do not
  throw) a failed result: \<open>success\<close> is false, the error is the one of the missing
  wallet, \<open>amountIn\<close> is the amount asked for; no call went to the network.
\<close>

theorem wallet_missing:
  "wallet this = None \<Longrightarrow>
     buyToken ext cfg this token amount =
       (\<lparr> success = False, signature = None, error = Some WalletNotInitialized,
          amountIn = amount, amountOut = None \<rparr>, []) \<and>
     sellToken ext cfg this token amount =
       (\<lparr> success = False, signature = None, error = Some WalletNotInitialized,
          amountIn = amount, amountOut = None \<rparr>, [])"
  by (simp add: buyToken_def sellToken_def failed_def)

theorem wallet_missing_witness:
  "wallet \<lparr> wallet = None \<rparr> = None \<and>
   buyToken example_externals example_config \<lparr> wallet = None \<rparr> example_token (Fin (1 / 2)) =
     (\<lparr> success = False, signature = None, error = Some WalletNotInitialized,
        amountIn = Fin (1 / 2), amountOut = None \<rparr>, []) \<and>
   sellToken example_externals example_config \<lparr> wallet = None \<rparr> example_token (Fin (1 / 2)) =
     (\<lparr> success = False, signature = None, error = Some WalletNotInitialized,
        amountIn = Fin (1 / 2), amountOut = None \<rparr>, [])"
proof -
  have h: "wallet \<lparr> wallet = None \<rparr> = None"
    by simp
  show ?thesis
    using h wallet_missing [OF h, of example_externals example_config example_token "Fin (1 / 2)"]
    by simp
qed

text \<open>
  Claim C4. A buy of more than the configured maximum returns (it does not throw) a
  failed result, \<open>success\<close> false and \<open>amountIn\<close> the amount asked for, and no call
  went to the network, for every token and every state of the wallet. With a wallet
  loaded, which the operation requires, the result is the one of the limit guard: it
  carries the limit error.
\<close>

theorem buy_limit_exceeded:
  "js_gt solAmount (maxBuyAmount cfg) \<Longrightarrow>
     success (fst (buyToken ext cfg this token solAmount)) = False \<and>
     amountIn (fst (buyToken ext cfg this token solAmount)) = solAmount \<and>
     snd (buyToken ext cfg this token solAmount) = [] \<and>
     (wallet this = Some w \<longrightarrow>
        buyToken ext cfg this token solAmount =
          (\<lparr> success = False, signature = None,
             error = Some (ExceedsMaxBuyLimit (maxBuyAmount cfg)),
             amountIn = solAmount, amountOut = None \<rparr>, []))"
  by (cases "wallet this") (simp_all add: buyToken_def failed_def)

theorem buy_limit_exceeded_witness:
  "wallet \<lparr> wallet = Some \<lparr> publicKey = PublicKey ''trader'' \<rparr> \<rparr> =
     Some \<lparr> publicKey = PublicKey ''trader'' \<rparr> \<and>
   js_gt (Fin 2) (maxBuyAmount example_config) \<and>
   buyToken example_externals example_config
       \<lparr> wallet = Some \<lparr> publicKey = PublicKey ''trader'' \<rparr> \<rparr> example_token (Fin 2) =
     (\<lparr> success = False, signature = None,
        error = Some (ExceedsMaxBuyLimit (maxBuyAmount example_config)),
        amountIn = Fin 2, amountOut = None \<rparr>, []) \<and>
   success (fst (buyToken example_externals example_config \<lparr> wallet = None \<rparr> example_token (Fin 2)))
     = False \<and>
   amountIn (fst (buyToken example_externals example_config \<lparr> wallet = None \<rparr> example_token (Fin 2)))
     = Fin 2 \<and>
   snd (buyToken example_externals example_config \<lparr> wallet = None \<rparr> example_token (Fin 2)) = []"
proof -
  have h1: "wallet \<lparr> wallet = Some \<lparr> publicKey = PublicKey ''trader'' \<rparr> \<rparr> =
     Some \<lparr> publicKey = PublicKey ''trader'' \<rparr>"
    by simp
  have h2: "js_gt (Fin 2) (maxBuyAmount example_config)"
    by (simp add: js_gt_def example_config_def)
  from buy_limit_exceeded [OF h2, where ext = example_externals and token = example_token
      and this = "\<lparr> wallet = Some \<lparr> publicKey = PublicKey ''trader'' \<rparr> \<rparr>"
      and w = "\<lparr> publicKey = PublicKey ''trader'' \<rparr>"]
    buy_limit_exceeded [OF h2, where ext = example_externals and token = example_token
      and this = "\<lparr> wallet = None \<rparr>" and w = "\<lparr> publicKey = PublicKey ''trader'' \<rparr>"]
  show ?thesis using h1 h2 by simp
qed

text \<open>The order of the two guards: the wallet is tested first, so without a wallet the
  over-limit buy is refused by the wallet guard and carries its error.\<close>

lemma buy_limit_without_wallet:
  "js_gt (Fin 2) (maxBuyAmount example_config) \<and>
   buyToken example_externals example_config \<lparr> wallet = None \<rparr> example_token (Fin 2) =
     (\<lparr> success = False, signature = None, error = Some WalletNotInitialized,
        amountIn = Fin 2, amountOut = None \<rparr>, []) \<and>
   error (fst (buyToken example_externals example_config \<lparr> wallet = None \<rparr> example_token (Fin 2)))
     \<noteq> Some (ExceedsMaxBuyLimit (maxBuyAmount example_config))"
  by (simp add: buyToken_def failed_def js_gt_def example_config_def)

section \<open>Instruction encoder: the payload\<close>

text \<open>
  Claim C2, as amended. For amounts that are integers in \<open>0 .. 2^64 - 1\<close> the payload
  of either direction is exactly 24 bytes: bytes 0-7 are the direction's discriminator
  (the two differ), bytes 8-15 and 16-23 hold, as 8-byte little-endian unsigned integers,
  \<open>(minTokens, solAmount)\<close> for a buy and \<open>(tokenAmount, minSol)\<close> for a sell.
\<close>

theorem payload_layout:
  assumes "0 \<le> minTokens" "minTokens < 2 ^ 64" "0 \<le> solAmount" "solAmount < 2 ^ 64"
    and "0 \<le> tokenAmount" "tokenAmount < 2 ^ 64" "0 \<le> minSol" "minSol < 2 ^ 64"
  shows "(\<exists>ins. buildBuyInstruction trader mintKey bc abc ata
                  (Fin (of_int solAmount)) (Fin (of_int minTokens)) = Inr ins \<and>
            length (data ins) = 24 \<and>
            take 8 (data ins) = buy_discriminator \<and>
            le_value (take 8 (drop 8 (data ins))) = minTokens \<and>
            le_value (take 8 (drop 16 (data ins))) = solAmount) \<and>
         (\<exists>ins. buildSellInstruction trader mintKey bc abc ata
                  (Fin (of_int tokenAmount)) (Fin (of_int minSol)) = Inr ins \<and>
            length (data ins) = 24 \<and>
            take 8 (data ins) = sell_discriminator \<and>
            le_value (take 8 (drop 8 (data ins))) = tokenAmount \<and>
            le_value (take 8 (drop 16 (data ins))) = minSol) \<and>
         buy_discriminator \<noteq> sell_discriminator"
proof -
  have d: "buy_discriminator \<noteq> sell_discriminator"
    by (simp add: buy_discriminator_def sell_discriminator_def)
  show ?thesis
    using assms d
    by (simp add: buildBuyInstruction_ok buildSellInstruction_ok le_value_u64)
qed

theorem payload_layout_witness:
  "(0::int) \<le> 990 \<and> (990::int) < 2 ^ 64 \<and> (0::int) \<le> 1000 \<and> (1000::int) < 2 ^ 64 \<and>
   (\<exists>ins. buildBuyInstruction (PublicKey ''trader'') (PublicKey ''mint'') (PublicKey ''curve'')
             (PublicKey ''vault'') (PublicKey ''ata'') (Fin 1000) (Fin 990) = Inr ins \<and>
           length (data ins) = 24 \<and>
           take 8 (data ins) = buy_discriminator \<and>
           le_value (take 8 (drop 8 (data ins))) = 990 \<and>
           le_value (take 8 (drop 16 (data ins))) = 1000) \<and>
   (\<exists>ins. buildSellInstruction (PublicKey ''trader'') (PublicKey ''mint'') (PublicKey ''curve'')
             (PublicKey ''vault'') (PublicKey ''ata'') (Fin 1000) (Fin 990) = Inr ins \<and>
           length (data ins) = 24 \<and>
           take 8 (data ins) = sell_discriminator \<and>
           le_value (take 8 (drop 8 (data ins))) = 1000 \<and>
           le_value (take 8 (drop 16 (data ins))) = 990)"
proof -
  have h: "(0::int) \<le> 990" "(990::int) < 2 ^ 64" "(0::int) \<le> 1000" "(1000::int) < 2 ^ 64"
    by simp_all
  from payload_layout [OF h(1) h(2) h(3) h(4) h(3) h(4) h(1) h(2),
      of "PublicKey ''trader''" "PublicKey ''mint''" "PublicKey ''curve''" "PublicKey ''vault''"
        "PublicKey ''ata''"]
  show ?thesis using h by simp
qed

text \<open>An amount of \<open>2^64\<close> does not fit the field: \<open>writeBigUInt64LE\<close> raises a
  RangeError and no payload is produced.\<close>

theorem payload_out_of_range:
  "buildBuyInstruction (PublicKey ''trader'') (PublicKey ''mint'') (PublicKey ''curve'')
     (PublicKey ''vault'') (PublicKey ''ata'') (Fin 1) (Fin (2 ^ 64)) = Inl RangeError \<and>
   buildSellInstruction (PublicKey ''trader'') (PublicKey ''mint'') (PublicKey ''curve'')
     (PublicKey ''vault'') (PublicKey ''ata'') (Fin (2 ^ 64)) (Fin 1) = Inl RangeError"
  by (simp add: buildBuyInstruction_def buildSellInstruction_def writeBigUInt64LE_def)

section \<open>Stream client: subscriptions, frames, reconnection\<close>

lemma send_frame_fields [simp]:
  "subscribedTokens (snd (send_frame ws_send frame logged c)) = subscribedTokens c"
  "onTrade (snd (send_frame ws_send frame logged c)) = onTrade c"
  "onNewToken (snd (send_frame ws_send frame logged c)) = onNewToken c"
  by (simp_all add: send_frame_def emit_def split: option.splits sum.splits)

lemma send_frame_outcome:
  "(fst (send_frame ws_send frame logged c), trace (snd (send_frame ws_send frame logged c))) =
     (case ws c of
        Some sock \<Rightarrow>
          if isConnected c
          then (case ws_send sock frame of
                  Inl e \<Rightarrow> (Some e, trace c)
                | Inr transmitted \<Rightarrow>
                    (None, trace c @ (if transmitted then [Send sock frame] else []) @ [ConsoleLog logged]))
          else (None, trace c)
      | None \<Rightarrow> (None, trace c))"
  by (simp add: send_frame_def emit_def split: option.splits sum.splits)

text \<open>
  Claim C10. Subscribing to a mint without a handler adds the mint to the subscription
  set and leaves the registered trade handler (and the new-token handler) as it was,
  whatever the call to the socket then does. The control frame goes out only when the
  client holds a socket and is connected: then the library's \<open>send\<close> is called, and
  either it throws, the error passes the caller and nothing is sent or logged, or it
  returns and the subscription is logged, the frame being in the trace when it was
  transmitted. Otherwise nothing is sent, logged or thrown.
\<close>

theorem subscribe_without_handler:
  "subscribedTokens (snd (subscribeToToken ws_send mintAddress None c)) =
     insert mintAddress (subscribedTokens c) \<and>
   onTrade (snd (subscribeToToken ws_send mintAddress None c)) = onTrade c \<and>
   onNewToken (snd (subscribeToToken ws_send mintAddress None c)) = onNewToken c \<and>
   (fst (subscribeToToken ws_send mintAddress None c),
    trace (snd (subscribeToToken ws_send mintAddress None c))) =
     (case ws c of
        Some sock \<Rightarrow>
          if isConnected c
          then (case ws_send sock (SubscribeTokenTrade [mintAddress]) of
                  Inl e \<Rightarrow> (Some e, trace c)
                | Inr transmitted \<Rightarrow>
                    (None,
                     trace c @
                     (if transmitted then [Send sock (SubscribeTokenTrade [mintAddress])] else []) @
                     [ConsoleLog (''Subscribed to trades for token: '' @ mintAddress)]))
          else (None, trace c)
      | None \<Rightarrow> (None, trace c))"
  by (simp add: subscribeToToken_def send_frame_outcome split: option.splits sum.splits)

text \<open>The same call on four clients: connected with a socket that transmits, connected
  by its flag with a socket that is still connecting (\<open>connect()\<close> was run again after
  an open) so that \<open>send\<close> throws, connected by its flag with a socket that drops the
  frame, and not connected.\<close>

theorem subscribe_without_handler_witness:
  "subscribeToToken (\<lambda>sock frame. Inr True) ''mint'' None
       (on_open 0 (connect (new_PumpFunWebSocket\<lparr> onTrade := Some (Callback 7 (\<lambda>event. None)) \<rparr>))) =
     (None,
      (on_open 0 (connect (new_PumpFunWebSocket\<lparr> onTrade := Some (Callback 7 (\<lambda>event. None)) \<rparr>)))
        \<lparr> subscribedTokens := {''mint''},
          trace := [NewWebSocket 0, ConsoleLog ''Connected to pump.fun WebSocket'', Resolve 0,
                    Send 0 (SubscribeTokenTrade [''mint'']),
                    ConsoleLog ''Subscribed to trades for token: mint''] \<rparr>) \<and>
   subscribeToToken (\<lambda>sock frame. Inl (Thrown ''WebSocket is not open: readyState 0 (CONNECTING)''))
       ''mint'' None (connect (on_open 0 (connect new_PumpFunWebSocket))) =
     (Some (Thrown ''WebSocket is not open: readyState 0 (CONNECTING)''),
      (connect (on_open 0 (connect new_PumpFunWebSocket)))\<lparr> subscribedTokens := {''mint''} \<rparr>) \<and>
   subscribeToToken (\<lambda>sock frame. Inr False) ''mint'' None (on_open 0 (connect new_PumpFunWebSocket)) =
     (None,
      (on_open 0 (connect new_PumpFunWebSocket))
        \<lparr> subscribedTokens := {''mint''},
          trace := [NewWebSocket 0, ConsoleLog ''Connected to pump.fun WebSocket'', Resolve 0,
                    ConsoleLog ''Subscribed to trades for token: mint''] \<rparr>) \<and>
   subscribeToToken (\<lambda>sock frame. Inr True) ''mint'' None (connect new_PumpFunWebSocket) =
     (None, (connect new_PumpFunWebSocket)\<lparr> subscribedTokens := {''mint''} \<rparr>)"
  using
    subscribe_without_handler [where ws_send = "\<lambda>sock frame. Inr True" and mintAddress = "''mint''"
      and c = "on_open 0 (connect (new_PumpFunWebSocket\<lparr> onTrade := Some (Callback 7 (\<lambda>event. None)) \<rparr>))"]
    subscribe_without_handler [where
      ws_send = "\<lambda>sock frame. Inl (Thrown ''WebSocket is not open: readyState 0 (CONNECTING)'')"
      and mintAddress = "''mint''" and c = "connect (on_open 0 (connect new_PumpFunWebSocket))"]
    subscribe_without_handler [where ws_send = "\<lambda>sock frame. Inr False" and mintAddress = "''mint''"
      and c = "on_open 0 (connect new_PumpFunWebSocket)"]
    subscribe_without_handler [where ws_send = "\<lambda>sock frame. Inr True" and mintAddress = "''mint''"
      and c = "connect new_PumpFunWebSocket"]
  by (simp add: subscribeToToken_def send_frame_def on_open_def connect_def emit_def
      new_PumpFunWebSocket_def)

text \<open>
  Claim C8. A frame that fails to parse is logged and dropped: the client is unchanged
  but for the error line in its trace, so no handler was called and no socket closed. A
  parsed frame whose \<open>txType\<close> (read as \<open>undefined\<close> where the frame has none) is
  none of the recognised tags changes nothing at all. The frame \<open>null\<close>, on which the
  tag cannot be read, is logged and dropped as a frame that fails to parse is.
\<close>

theorem bad_frames_dropped:
  "(parse frame = None \<longrightarrow>
      on_message parse sock frame c =
        c\<lparr> trace := trace c @ [ConsoleError ''Error parsing WebSocket message:''] \<rparr>) \<and>
   (parse frame = Some message \<and> txType message = Inr t \<and> \<not> recognised t \<longrightarrow>
      on_message parse sock frame c = c) \<and>
   (parse frame = Some JNull \<longrightarrow>
      on_message parse sock frame c =
        c\<lparr> trace := trace c @ [ConsoleError ''Error parsing WebSocket message:''] \<rparr>)"
  by (auto simp: on_message_def handleMessage_def emit_def recognised_def)

text \<open>A failed reconnect attempt leaves the line of the rejection handler in the
  trace, after those of the error and close listeners. A recognised frame reaches the
  registered handler; when the handler throws, the \<open>catch\<close> of the listener logs it
  as a parse error, after the call.\<close>

lemma failed_attempt_trace:
  "trace (failed_attempt peer_closed) =
     trace peer_closed @
     [NewWebSocket 1, ConsoleError ''WebSocket error:'', Reject 1,
      ConsoleLog ''WebSocket connection closed'', ConsoleLogReconnect 4000,
      ConsoleError ''Reconnection failed:'']"
  by (simp add: failed_attempt_def reconnection_failed_def timer_fires_def on_close_def
      on_error_def attemptReconnect_def peer_closed_def on_open_def connect_def emit_def
      new_PumpFunWebSocket_def Let_def)

lemma handler_throws_logged:
  "on_message (\<lambda>s. Some (JObject [(''txType'', JString ''buy'')])) 0 ''frame''
       (new_PumpFunWebSocket\<lparr> onTrade := Some (Callback 7 (\<lambda>event. Some TypeError)) \<rparr>) =
     (new_PumpFunWebSocket\<lparr> onTrade := Some (Callback 7 (\<lambda>event. Some TypeError)) \<rparr>)
       \<lparr> trace := [CallTrade 7 (JObject [(''txType'', JString ''buy'')]),
                   ConsoleError ''Error parsing WebSocket message:''] \<rparr>"
  by (simp add: on_message_def handleMessage_def emit_def new_PumpFunWebSocket_def)

theorem bad_frames_dropped_witness:
  "example_parse ''not json'' = None \<and>
   on_message example_parse 0 ''not json'' peer_closed =
     peer_closed\<lparr> trace := trace peer_closed @ [ConsoleError ''Error parsing WebSocket message:''] \<rparr> \<and>
   example_parse ''ping'' = Some (JObject [(''txType'', JString ''ping'')]) \<and>
   txType (JObject [(''txType'', JString ''ping'')]) = Inr (Some (JString ''ping'')) \<and>
   \<not> recognised (Some (JString ''ping'')) \<and>
   on_message example_parse 0 ''ping'' peer_closed = peer_closed \<and>
   example_parse ''null'' = Some JNull \<and>
   on_message example_parse 0 ''null'' peer_closed =
     peer_closed\<lparr> trace := trace peer_closed @ [ConsoleError ''Error parsing WebSocket message:''] \<rparr>"
proof -
  have h1: "example_parse ''not json'' = None"
    by (simp add: example_parse_def)
  have h2: "example_parse ''ping'' = Some (JObject [(''txType'', JString ''ping'')])"
    by (simp add: example_parse_def)
  have h3: "txType (JObject [(''txType'', JString ''ping'')]) = Inr (Some (JString ''ping''))"
    by simp
  have h4: "\<not> recognised (Some (JString ''ping''))"
    by (simp add: recognised_def)
  have h5: "example_parse ''null'' = Some JNull"
    by (simp add: example_parse_def)
  from bad_frames_dropped [where parse = example_parse and frame = "''not json''" and sock = 0
      and c = peer_closed]
    bad_frames_dropped [where parse = example_parse and frame = "''ping''" and sock = 0
      and c = peer_closed and message = "JObject [(''txType'', JString ''ping'')]"
      and t = "Some (JString ''ping'')"]
    bad_frames_dropped [where parse = example_parse and frame = "''null''" and sock = 0
      and c = peer_closed]
  show ?thesis using h1 h2 h3 h4 h5 by simp
qed

lemma attemptReconnect_timers:
  "timers (attemptReconnect c) =
     (if maxReconnectAttempts c \<le> reconnectAttempts c then timers c
      else timers c @ [min (1000 * 2 ^ Suc (reconnectAttempts c)) 30000])"
  by (simp add: attemptReconnect_def emit_def Let_def)

lemma attemptReconnect_count:
  "reconnectAttempts (attemptReconnect c) =
     (if maxReconnectAttempts c \<le> reconnectAttempts c then reconnectAttempts c
      else Suc (reconnectAttempts c))"
  by (simp add: attemptReconnect_def emit_def Let_def)

lemma attemptReconnect_max [simp]:
  "maxReconnectAttempts (attemptReconnect c) = maxReconnectAttempts c"
  by (simp add: attemptReconnect_def emit_def Let_def)

lemma on_close_fields:
  "timers (on_close sock c) =
     (if maxReconnectAttempts c \<le> reconnectAttempts c then timers c
      else timers c @ [min (1000 * 2 ^ Suc (reconnectAttempts c)) 30000])"
  "reconnectAttempts (on_close sock c) =
     (if maxReconnectAttempts c \<le> reconnectAttempts c then reconnectAttempts c
      else Suc (reconnectAttempts c))"
  "maxReconnectAttempts (on_close sock c) = maxReconnectAttempts c"
  by (simp_all add: on_close_def attemptReconnect_timers attemptReconnect_count emit_def)

lemma on_error_fields [simp]:
  "timers (on_error sock c) = timers c"
  "reconnectAttempts (on_error sock c) = reconnectAttempts c"
  "maxReconnectAttempts (on_error sock c) = maxReconnectAttempts c"
  by (simp_all add: on_error_def emit_def)

lemma timer_fires_fields [simp]:
  "timers (timer_fires 0 c) = tl (timers c)"
  "reconnectAttempts (timer_fires i c) = reconnectAttempts c"
  "maxReconnectAttempts (timer_fires i c) = maxReconnectAttempts c"
  by (simp_all add: timer_fires_def connect_def emit_def drop_Suc)

lemma failed_attempt_fields:
  "timers (failed_attempt c) =
     (if maxReconnectAttempts c \<le> reconnectAttempts c then tl (timers c)
      else tl (timers c) @ [min (1000 * 2 ^ Suc (reconnectAttempts c)) 30000])"
  "reconnectAttempts (failed_attempt c) =
     (if maxReconnectAttempts c \<le> reconnectAttempts c then reconnectAttempts c
      else Suc (reconnectAttempts c))"
  "maxReconnectAttempts (failed_attempt c) = maxReconnectAttempts c"
  by (simp_all add: failed_attempt_def reconnection_failed_def emit_def on_close_fields Let_def)

lemma after_failures_Suc: "after_failures (Suc n) sock c = failed_attempt (after_failures n sock c)"
  by (simp add: after_failures_def)

lemma after_failures_state:
  assumes "reconnectAttempts c = 0" "maxReconnectAttempts c = 5" "timers c = []"
  shows "n < 5 \<Longrightarrow>
           timers (after_failures n sock c) = [min (1000 * 2 ^ Suc n) 30000] \<and>
           reconnectAttempts (after_failures n sock c) = Suc n \<and>
           maxReconnectAttempts (after_failures n sock c) = 5"
proof (induction n)
  case 0
  then show ?case using assms by (simp add: after_failures_def on_close_fields)
next
  case (Suc n)
  then show ?case using assms by (simp add: after_failures_Suc failed_attempt_fields)
qed

lemma abandoned_state:
  assumes "reconnectAttempts c = 0" "maxReconnectAttempts c = 5" "timers c = []"
  shows "5 \<le> n \<Longrightarrow>
           timers (after_failures n sock c) = [] \<and>
           reconnectAttempts (after_failures n sock c) = 5 \<and>
           maxReconnectAttempts (after_failures n sock c) = 5"
proof (induction n rule: dec_induct)
  case base
  have "after_failures 5 sock c = failed_attempt (after_failures 4 sock c)"
    by (simp add: after_failures_def eval_nat_numeral)
  with after_failures_state [OF assms, of 4 sock]
  show ?case by (simp add: failed_attempt_fields)
next
  case (step n)
  then show ?case by (simp add: after_failures_Suc failed_attempt_fields)
qed

text \<open>
  Claim C5. From a client with no attempt counted, the delays scheduled before reconnect
  attempts 1 to 5 are 2000, 4000, 8000, 16000 and 30000 ms, the delay before attempt
  \<open>n\<close> being \<open>min (1000 * 2^n) 30000\<close>; once five attempts in a row have failed no
  timer is pending and a further close schedules none; an opened connection sets the
  counter back to zero.
\<close>

theorem reconnect_backoff:
  assumes "reconnectAttempts c = 0" and "maxReconnectAttempts c = 5" and "timers c = []"
  shows "map (\<lambda>n. timers (after_failures n sock c)) [0, 1, 2, 3, 4] =
           [[2000], [4000], [8000], [16000], [30000]] \<and>
         (\<forall>n<5. timers (after_failures n sock c) = [min (1000 * 2 ^ Suc n) 30000]) \<and>
         (\<forall>n\<ge>5. timers (after_failures n sock c) = [] \<and>
                 timers (on_close sock' (after_failures n sock c)) = []) \<and>
         reconnectAttempts (on_open sock'' c') = 0"
proof -
  have small: "\<forall>n<5. timers (after_failures n sock c) = [min (1000 * 2 ^ Suc n) 30000]"
    using after_failures_state [OF assms] by blast
  have "\<forall>n\<in>{0, 1, 2, 3, 4}. timers (after_failures n sock c) = [min (1000 * 2 ^ Suc n) 30000]"
    using small by simp
  then have first: "map (\<lambda>n. timers (after_failures n sock c)) [0, 1, 2, 3, 4] =
           [[2000], [4000], [8000], [16000], [30000]]"
    by simp
  have late: "\<forall>n\<ge>5. timers (after_failures n sock c) = [] \<and>
                 timers (on_close sock' (after_failures n sock c)) = []"
    using abandoned_state [OF assms] by (simp add: on_close_fields)
  have reset: "reconnectAttempts (on_open sock'' c') = 0"
    by (simp add: on_open_def emit_def)
  from first small late reset show ?thesis by blast
qed

theorem reconnect_backoff_witness:
  "reconnectAttempts new_PumpFunWebSocket = 0 \<and> maxReconnectAttempts new_PumpFunWebSocket = 5 \<and>
   timers new_PumpFunWebSocket = [] \<and>
   map (\<lambda>n. timers (after_failures n 0 new_PumpFunWebSocket)) [0, 1, 2, 3, 4] =
     [[2000], [4000], [8000], [16000], [30000]] \<and>
   timers (after_failures 5 0 new_PumpFunWebSocket) = [] \<and>
   timers (on_close 5 (after_failures 5 0 new_PumpFunWebSocket)) = [] \<and>
   reconnectAttempts (on_open 5 (after_failures 5 0 new_PumpFunWebSocket)) = 0"
proof -
  have h: "reconnectAttempts new_PumpFunWebSocket = 0" "maxReconnectAttempts new_PumpFunWebSocket = 5"
    "timers new_PumpFunWebSocket = []"
    by (simp_all add: new_PumpFunWebSocket_def)
  from reconnect_backoff [OF h, of 0 5 5 "after_failures 5 0 new_PumpFunWebSocket"]
  show ?thesis using h by simp
qed

text \<open>
  Claim C6, as amended. \<open>disconnect()\<close> on a client that holds a socket closes the
  socket and leaves the client without a socket and not connected; without a socket it
  changes nothing, so a second call changes nothing.
\<close>

theorem disconnect_effect:
  "(ws c = Some sock \<longrightarrow>
      disconnect c =
        c\<lparr> ws := None, isConnected := False,
           trace := trace c @ [CloseSocket sock, ConsoleLog ''Disconnected from WebSocket''] \<rparr>) \<and>
   (ws c = None \<longrightarrow> disconnect c = c) \<and>
   disconnect (disconnect c) = disconnect c \<and>
   ws (disconnect c) = None"
  by (cases "ws c") (simp_all add: disconnect_def emit_def)

theorem disconnect_effect_witness:
  "ws (connect new_PumpFunWebSocket) = Some 0 \<and>
   disconnect (connect new_PumpFunWebSocket) =
     (connect new_PumpFunWebSocket)
       \<lparr> ws := None, isConnected := False,
         trace := trace (connect new_PumpFunWebSocket) @
           [CloseSocket 0, ConsoleLog ''Disconnected from WebSocket''] \<rparr> \<and>
   ws new_PumpFunWebSocket = None \<and> disconnect new_PumpFunWebSocket = new_PumpFunWebSocket"
proof -
  have h1: "ws (connect new_PumpFunWebSocket) = Some 0"
    by (simp add: connect_def emit_def new_PumpFunWebSocket_def)
  have h2: "ws new_PumpFunWebSocket = None"
    by (simp add: new_PumpFunWebSocket_def)
  from disconnect_effect [of "connect new_PumpFunWebSocket" 0] disconnect_effect [of new_PumpFunWebSocket 0]
  show ?thesis using h1 h2 by simp
qed

text \<open>A reconnect timer that was pending survives \<open>disconnect()\<close>, and when it fires
  \<open>connect()\<close> opens a new socket; the close of the socket that \<open>disconnect()\<close>
  closed schedules a reconnect as any other close does.\<close>

theorem disconnect_keeps_timer:
  "timers peer_closed = [2000] \<and>
   timers (disconnect peer_closed) = [2000] \<and>
   ws (disconnect peer_closed) = None \<and>
   ws (timer_fires 0 (disconnect peer_closed)) = Some 1 \<and>
   trace (timer_fires 0 (disconnect peer_closed)) =
     trace (disconnect peer_closed) @ [NewWebSocket 1] \<and>
   timers (on_close 0 (disconnect (on_open 0 (connect new_PumpFunWebSocket)))) = [2000]"
  by (simp add: peer_closed_def disconnect_def on_close_def on_open_def connect_def emit_def
      attemptReconnect_def timer_fires_def new_PumpFunWebSocket_def Let_def)

section \<open>Rounding to a double\<close>

text \<open>The exponent function brackets its argument, rounding is monotone, and the
  numbers with a 53-bit significand are fixed points. The last two lemmas of the section
  compute a rounding from its exponent and significand.\<close>

lemma bit_length_bounds:
  "0 < n \<Longrightarrow> 1 \<le> bit_length n \<and> 2 ^ nat (bit_length n - 1) \<le> n \<and> n < 2 ^ nat (bit_length n)"
proof (induction n rule: bit_length.induct)
  case (1 n)
  show ?case
  proof (cases "n div 2 = 0")
    case True
    with "1.prems" have "n = 1" by auto
    then show ?thesis by (simp add: bit_length.simps)
  next
    case False
    with "1.prems" have pos: "0 < n div 2" by auto
    with "1.prems" "1.IH" have IH: "1 \<le> bit_length (n div 2)"
      "2 ^ nat (bit_length (n div 2) - 1) \<le> n div 2" "n div 2 < 2 ^ nat (bit_length (n div 2))"
      by auto
    have bl: "bit_length n = 1 + bit_length (n div 2)"
      using "1.prems" by (subst bit_length.simps) simp
    have e1: "nat (bit_length n - 1) = Suc (nat (bit_length (n div 2) - 1))"
      using bl IH(1) by simp
    have e2: "nat (bit_length n) = Suc (nat (bit_length (n div 2)))"
      using bl IH(1) by simp
    have d: "2 * (n div 2) \<le> n" "n < 2 * (n div 2) + 2"
      by presburger+
    have "2 * 2 ^ nat (bit_length (n div 2) - 1) \<le> n"
      using IH(2) d(1) by linarith
    moreover have "n div 2 + 1 \<le> 2 ^ nat (bit_length (n div 2))"
      using IH(3) by simp
    then have "n < 2 * 2 ^ nat (bit_length (n div 2))"
      using d(2) by linarith
    ultimately show ?thesis using IH(1) bl unfolding e1 e2 by simp
  qed
qed


lemma pow2_nat: "0 \<le> e \<Longrightarrow> (2::rat) powi e = of_int (2 ^ nat e)"
  by (simp add: power_int_def)

lemma pow2_neg: "0 \<le> e \<Longrightarrow> (2::rat) powi (- e) = 1 / of_int (2 ^ nat e)"
  by (simp add: power_int_minus pow2_nat inverse_eq_divide)

lemma pow2_pos [simp]: "0 < (2::rat) powi e"
  by (simp add: zero_less_power_int)

lemma pow2_mono: "a \<le> b \<Longrightarrow> (2::rat) powi a \<le> 2 powi b"
  by (simp add: power_int_increasing)

lemma pow2_strict_mono: "a < b \<Longrightarrow> (2::rat) powi a < 2 powi b"
  by (simp add: power_int_strict_increasing)

lemma pow2_less_cancel: "(2::rat) powi a < 2 powi b \<Longrightarrow> a < b"
  using pow2_mono [of b a] by (cases "a < b") auto

lemma pow2_add: "(2::rat) powi (a + b) = 2 powi a * 2 powi b"
  by (simp add: power_int_add)

lemma ilog2_bounds:
  assumes "0 < x"
  shows "2 powi ilog2 x \<le> x \<and> x < 2 powi (ilog2 x + 1)"
proof (cases "1 \<le> x")
  case True
  define n where "n = \<lfloor>x\<rfloor>"
  have n: "1 \<le> n" "of_int n \<le> x" "x < of_int (n + 1)"
    using True unfolding n_def by linarith+
  from bit_length_bounds [of n] n(1)
  have b: "1 \<le> bit_length n" "2 ^ nat (bit_length n - 1) \<le> n" "n + 1 \<le> 2 ^ nat (bit_length n)"
    by auto
  have e: "ilog2 x = bit_length n - 1"
    using True by (simp add: ilog2_def n_def)
  have "(2::rat) powi (bit_length n - 1) = of_int (2 ^ nat (bit_length n - 1))"
    using b(1) by (intro pow2_nat) simp
  also have "\<dots> \<le> of_int n"
    using b(2) by (simp only: of_int_le_iff)
  finally have lo: "2 powi ilog2 x \<le> x"
    using n(2) e by simp
  have "x < of_int (n + 1)" by (rule n(3))
  also have "\<dots> \<le> of_int (2 ^ nat (bit_length n))"
    using b(3) by (simp only: of_int_le_iff)
  also have "\<dots> = (2::rat) powi (bit_length n)"
    using b(1) by (subst pow2_nat) simp_all
  finally have "x < 2 powi (ilog2 x + 1)"
    using e by simp
  with lo show ?thesis ..
next
  case False
  define y where "y = \<lceil>1 / x\<rceil>"
  define j where "j = bit_length (y - 1)"
  have big: "1 < 1 / x"
    using False assms by simp
  have y: "2 \<le> y" "1 / x \<le> of_int y" "of_int (y - 1) < 1 / x"
    using big unfolding y_def by linarith+
  from bit_length_bounds [of "y - 1"] y(1)
  have b: "1 \<le> j" "2 ^ nat (j - 1) \<le> y - 1" "y \<le> 2 ^ nat j"
    by (auto simp: j_def)
  have e: "ilog2 x = - j"
    using False by (simp add: ilog2_def y_def j_def)
  have "1 / x \<le> of_int (2 ^ nat j)"
    using y(2) b(3) by (meson of_int_le_iff order_trans)
  then have "1 / of_int (2 ^ nat j) \<le> x"
    using assms by (simp add: field_simps)
  then have lo: "2 powi ilog2 x \<le> x"
    using b(1) e by (simp add: pow2_neg)
  have "of_int (2 ^ nat (j - 1)) < 1 / x"
    using y(3) b(2) by (meson of_int_le_iff le_less_trans)
  then have "x < 1 / of_int (2 ^ nat (j - 1))"
    using assms by (simp add: field_simps)
  moreover have "(2::rat) powi (- j + 1) = 1 / of_int (2 ^ nat (j - 1))"
    using pow2_neg [of "j - 1"] b(1) by simp
  ultimately have "x < 2 powi (ilog2 x + 1)"
    using e by simp
  with lo show ?thesis ..
qed

lemma ilog2_unique:
  assumes "2 powi e \<le> x" "x < 2 powi (e + 1)"
  shows "ilog2 x = e"
proof -
  have pos: "0 < x"
    using assms(1) pow2_pos [of e] by linarith
  from ilog2_bounds [OF pos] have b: "2 powi ilog2 x \<le> x" "x < 2 powi (ilog2 x + 1)"
    by auto
  have "(2::rat) powi e < 2 powi (ilog2 x + 1)"
    using assms(1) b(2) by linarith
  then have 1: "e < ilog2 x + 1" by (rule pow2_less_cancel)
  have "(2::rat) powi ilog2 x < 2 powi (e + 1)"
    using assms(2) b(1) by linarith
  then have 2: "ilog2 x < e + 1" by (rule pow2_less_cancel)
  from 1 2 show ?thesis by simp
qed

lemma round_half_even_of_int [simp]: "round_half_even (of_int k) = k"
  by (simp add: round_half_even_def)

lemma round_half_even_bounds:
  "\<lfloor>m\<rfloor> \<le> round_half_even m \<and> round_half_even m \<le> \<lfloor>m\<rfloor> + 1"
  by (simp add: round_half_even_def Let_def)

lemma round_half_even_mono:
  assumes "a \<le> b"
  shows "round_half_even a \<le> round_half_even b"
proof (cases "\<lfloor>a\<rfloor> = \<lfloor>b\<rfloor>")
  case True
  then show ?thesis
    using assms by (auto simp: round_half_even_def Let_def)
next
  case False
  then have "\<lfloor>a\<rfloor> + 1 \<le> \<lfloor>b\<rfloor>"
    using floor_mono [OF assms] by simp
  then show ?thesis
    using round_half_even_bounds [of a] round_half_even_bounds [of b] by linarith
qed

lemma round_half_even_near:
  assumes "\<bar>m - of_int k\<bar> < 1 / 2"
  shows "round_half_even m = k"
proof (cases "of_int k \<le> m")
  case True
  then have "\<lfloor>m\<rfloor> = k"
    using assms by (intro floor_unique) auto
  then show ?thesis
    using assms True by (simp add: round_half_even_def)
next
  case False
  then have "\<lfloor>m\<rfloor> = k - 1"
    using assms by (intro floor_unique) auto
  then show ?thesis
    using assms False by (simp add: round_half_even_def)
qed


lemma round_half_even_minus: "round_half_even (- m) = - round_half_even m"
proof (cases "m = of_int \<lfloor>m\<rfloor>")
  case True
  then have "round_half_even m = \<lfloor>m\<rfloor>"
    by (metis round_half_even_of_int)
  moreover have "round_half_even (- m) = - \<lfloor>m\<rfloor>"
    using True by (metis round_half_even_of_int of_int_minus)
  ultimately show ?thesis by simp
next
  case False
  then have f: "\<lfloor>- m\<rfloor> = - \<lfloor>m\<rfloor> - 1"
    by (intro floor_unique) (auto simp: less_le, linarith+)
  have d: "0 < m - of_int \<lfloor>m\<rfloor>"
    using False by (simp add: less_le)
  show ?thesis
    using d by (auto simp: round_half_even_def Let_def f)
qed

lemma round_to_mono: "0 < q \<Longrightarrow> x \<le> y \<Longrightarrow> round_to q x \<le> round_to q y"
  by (simp add: round_to_def round_half_even_mono divide_right_mono)

lemma round_to_exact: "0 < q \<Longrightarrow> round_to q (of_int k * q) = of_int k * q"
  by (simp add: round_to_def)

lemma round_to_minus: "round_to q (- x) = - round_to q x"
  by (simp add: round_to_def round_half_even_minus)

lemma quantum_pos [simp]: "0 < quantum x"
  by (simp add: quantum_def)

lemma quantum_minus [simp]: "quantum (- x) = quantum x"
  by (simp add: quantum_def)


lemma round_double_alt:
  "round_double x =
     (if 2 powi 1024 \<le> nearest_double x then PInf
      else if nearest_double x \<le> - (2 powi 1024) then NInf
      else Fin (nearest_double x))"
  by (simp add: round_double_def Let_def)

lemma ilog2_mono:
  assumes "0 < x" "x \<le> y"
  shows "ilog2 x \<le> ilog2 y"
proof -
  have "0 < y" using assms by simp
  from ilog2_bounds [OF assms(1)] ilog2_bounds [OF this] assms(2)
  have "(2::rat) powi ilog2 x < 2 powi (ilog2 y + 1)"
    by linarith
  then have "ilog2 x < ilog2 y + 1" by (rule pow2_less_cancel)
  then show ?thesis by simp
qed

lemma pow2_53: "(2::rat) powi (e + 1) = of_int (2 ^ 53) * 2 powi (e - 52)"
  using pow2_add [of 53 "e - 52"] by (simp add: add.commute)

lemma pow2_52: "(2::rat) powi e = of_int (2 ^ 52) * 2 powi (e - 52)"
  using pow2_add [of 52 "e - 52"] by simp

lemma nearest_double_zero [simp]: "nearest_double 0 = 0"
  by (simp add: nearest_double_def round_to_def round_half_even_def)


lemma nearest_double_minus: "nearest_double (- x) = - nearest_double x"
  by (simp add: nearest_double_def round_to_minus)

lemma nearest_double_mono_pos:
  assumes "0 < x" "x \<le> y"
  shows "nearest_double x \<le> nearest_double y"
proof -
  define ex where "ex = max (ilog2 x) (- 1022)"
  define ey where "ey = max (ilog2 y) (- 1022)"
  have ypos: "0 < y" using assms by simp
  have qx: "quantum x = 2 powi (ex - 52)"
    using assms(1) by (simp add: quantum_def ex_def)
  have qy: "quantum y = 2 powi (ey - 52)"
    using ypos by (simp add: quantum_def ey_def)
  have le: "ex \<le> ey"
    using ilog2_mono [OF assms] by (simp add: ex_def ey_def)
  show ?thesis
  proof (cases "ex = ey")
    case True
    then have "quantum x = quantum y" by (simp add: qx qy)
    then show ?thesis
      using assms(2) by (simp add: nearest_double_def round_to_mono)
  next
    case False
    with le have lt: "ex + 1 \<le> ey" by simp
    then have ey: "ey = ilog2 y" by (auto simp: ey_def ex_def)
    have "x < 2 powi (ilog2 x + 1)"
      using ilog2_bounds [OF assms(1)] by simp
    also have "\<dots> \<le> 2 powi (ex + 1)"
      by (rule pow2_mono) (simp add: ex_def)
    finally have "x \<le> 2 powi (ex + 1)" by simp
    then have "nearest_double x \<le> round_to (quantum x) (2 powi (ex + 1))"
      by (simp add: nearest_double_def round_to_mono)
    also have "\<dots> = 2 powi (ex + 1)"
      unfolding qx pow2_53 [of ex] by (rule round_to_exact) simp
    also have "\<dots> \<le> 2 powi ey"
      using lt by (rule pow2_mono)
    also have "\<dots> = round_to (quantum y) (2 powi ey)"
      unfolding qy pow2_52 [of ey] by (rule round_to_exact [symmetric]) simp
    also have "\<dots> \<le> nearest_double y"
      using ilog2_bounds [OF ypos] ey by (simp add: nearest_double_def round_to_mono)
    finally show ?thesis .
  qed
qed

lemma round_to_zero [simp]: "round_to q 0 = 0"
  by (simp add: round_to_def round_half_even_def)

lemma nearest_double_nonneg: "0 \<le> x \<Longrightarrow> 0 \<le> nearest_double x"
  using round_to_mono [of "quantum x" 0 x] by (simp add: nearest_double_def)

lemma nearest_double_mono:
  assumes "x \<le> y"
  shows "nearest_double x \<le> nearest_double y"
proof -
  consider "0 < x" | "x \<le> 0" "0 \<le> y" | "y < 0" using assms by linarith
  then show ?thesis
  proof cases
    case 1
    then show ?thesis using assms by (rule nearest_double_mono_pos)
  next
    case 2
    have "nearest_double x \<le> 0"
      using nearest_double_nonneg [of "- x"] 2(1) by (simp add: nearest_double_minus)
    then show ?thesis
      using nearest_double_nonneg [OF 2(2)] by linarith
  next
    case 3
    then have "nearest_double (- y) \<le> nearest_double (- x)"
      using assms by (intro nearest_double_mono_pos) simp_all
    then show ?thesis by (simp add: nearest_double_minus)
  qed
qed

lemma round_double_mono: "x \<le> y \<Longrightarrow> js_le (round_double x) (round_double y)"
  using nearest_double_mono [of x y] pow2_pos [of 1024]
  by (auto simp: round_double_alt)

lemma nearest_double_fix:
  assumes "x = of_int k * 2 powi j" "\<bar>k\<bar> < 2 ^ 53" "- 1074 \<le> j"
  shows "nearest_double x = x"
proof (cases "x = 0")
  case True
  then show ?thesis by simp
next
  case False
  define g where "g = max (ilog2 \<bar>x\<bar>) (- 1022) - 52"
  have pos: "0 < \<bar>x\<bar>" using False by simp
  have "\<bar>x\<bar> = of_int \<bar>k\<bar> * 2 powi j"
    by (simp add: assms(1) abs_mult)
  also have "\<dots> < of_int (2 ^ 53) * 2 powi j"
    using assms(2) by (intro mult_strict_right_mono) (simp_all only: of_int_less_iff pow2_pos)
  also have "\<dots> = 2 powi (j + 53)"
    using pow2_add [of 53 j] by (simp add: add.commute)
  finally have "2 powi ilog2 \<bar>x\<bar> < (2::rat) powi (j + 53)"
    using ilog2_bounds [OF pos] by linarith
  then have "ilog2 \<bar>x\<bar> < j + 53" by (rule pow2_less_cancel)
  then have gj: "g \<le> j" using assms(3) by (simp add: g_def)
  have "(2::rat) powi j = 2 powi (j - g) * 2 powi g"
    using pow2_add [of "j - g" g] by simp
  also have "(2::rat) powi (j - g) = of_int (2 ^ nat (j - g))"
    using gj by (intro pow2_nat) simp
  finally have "x = of_int (k * 2 ^ nat (j - g)) * 2 powi g"
    by (simp add: assms(1))
  then have "round_to (2 powi g) x = x"
    using round_to_exact [of "2 powi g" "k * 2 ^ nat (j - g)"] by simp
  then show ?thesis by (simp add: nearest_double_def quantum_def g_def)
qed

lemma nearest_double_pow2: "- 1074 \<le> e \<Longrightarrow> nearest_double (2 powi e) = 2 powi e"
  using nearest_double_fix [of "2 powi e" 1 e] by simp

lemma nearest_double_abs_le:
  assumes "\<bar>x\<bar> \<le> 2 powi e" "- 1074 \<le> e"
  shows "\<bar>nearest_double x\<bar> \<le> 2 powi e"
proof -
  have "nearest_double x \<le> nearest_double (2 powi e)"
    using assms(1) by (intro nearest_double_mono) simp
  moreover have "nearest_double (- (2 powi e)) \<le> nearest_double x"
    using assms(1) by (intro nearest_double_mono) simp
  ultimately show ?thesis
    using assms(2) by (simp add: nearest_double_minus nearest_double_pow2 abs_le_iff)
qed

lemma round_double_finite:
  assumes "\<bar>x\<bar> \<le> 2 powi e" "e \<le> 1023"
  shows "round_double x = Fin (nearest_double x)"
proof -
  define e' where "e' = max e (- 1074)"
  have "\<bar>x\<bar> \<le> 2 powi e'"
    using assms(1) pow2_mono [of e e'] by (simp add: e'_def)
  then have "\<bar>nearest_double x\<bar> \<le> 2 powi e'"
    by (rule nearest_double_abs_le) (simp add: e'_def)
  also have "\<dots> < 2 powi 1024"
    using assms(2) by (intro pow2_strict_mono) (simp add: e'_def)
  finally show ?thesis
    by (auto simp: round_double_alt)
qed

lemma round_double_fix:
  assumes "x = of_int k * 2 powi j" "\<bar>k\<bar> < 2 ^ 53" "- 1074 \<le> j" "j \<le> 970"
  shows "round_double x = Fin x"
proof -
  have "\<bar>x\<bar> = of_int \<bar>k\<bar> * 2 powi j"
    by (simp add: assms(1) abs_mult)
  also have "\<dots> \<le> of_int (2 ^ 53) * 2 powi j"
    using assms(2) by (intro mult_right_mono) (simp_all only: of_int_le_iff, simp_all)
  also have "\<dots> = 2 powi (j + 53)"
    using pow2_add [of 53 j] by (simp add: add.commute)
  finally have "round_double x = Fin (nearest_double x)"
    using assms(4) by (intro round_double_finite [of x "j + 53"]) simp_all
  then show ?thesis
    using nearest_double_fix [OF assms(1,2,3)] by simp
qed

lemma round_double_int:
  assumes "\<bar>i\<bar> \<le> 2 ^ 53"
  shows "round_double (of_int i) = Fin (of_int i)"
proof (cases "\<bar>i\<bar> < 2 ^ 53")
  case True
  then show ?thesis
    using round_double_fix [of "of_int i" i 0] by simp
next
  case False
  with assms have "\<bar>i\<bar> = 2 ^ 53" by simp
  then have "i = 2 * 2 ^ 52 \<or> i = 2 * (- (2 ^ 52))" by (auto simp: abs_if split: if_splits)
  then show ?thesis
    using round_double_fix [of "of_int i" "2 ^ 52" 1] round_double_fix [of "of_int i" "- (2 ^ 52)" 1]
    by auto
qed

lemma round_double_near:
  assumes "2 powi e \<le> \<bar>x\<bar>" "\<bar>x\<bar> < 2 powi (e + 1)" "- 1022 \<le> e" "e \<le> 1022"
    and "\<bar>x / 2 powi (e - 52) - of_int m\<bar> < 1 / 2"
  shows "round_double x = Fin (of_int m * 2 powi (e - 52))"
proof -
  have "ilog2 \<bar>x\<bar> = e"
    using assms(1,2) by (rule ilog2_unique)
  then have q: "quantum x = 2 powi (e - 52)"
    using assms(3) by (simp add: quantum_def)
  have "round_double x = Fin (nearest_double x)"
    using assms(2,4) by (intro round_double_finite [of x "e + 1"]) simp_all
  then show ?thesis
    using round_half_even_near [OF assms(5)] by (simp add: nearest_double_def q round_to_def)
qed




text \<open>The rounding error: half a spacing, so at most \<open>2^-53\<close> of the magnitude
  in the normal range.\<close>

lemma pow2_shift: "(2::rat) powi (e - 52) = 2 powi e / 2 ^ 52"
  using pow2_52 [of e] by simp

lemma round_half_even_error: "\<bar>of_int (round_half_even m) - m\<bar> \<le> 1 / 2"
proof -
  have "of_int \<lfloor>m\<rfloor> \<le> m" "m < of_int \<lfloor>m\<rfloor> + 1"
    by linarith+
  then show ?thesis
    by (auto simp: round_half_even_def Let_def)
qed

lemma round_to_error:
  assumes "0 < q"
  shows "\<bar>round_to q x - x\<bar> \<le> q / 2"
proof -
  have "round_to q x - x = (of_int (round_half_even (x / q)) - x / q) * q"
    using assms by (simp add: round_to_def algebra_simps)
  then have "\<bar>round_to q x - x\<bar> = \<bar>of_int (round_half_even (x / q)) - x / q\<bar> * q"
    using assms by (simp add: abs_mult)
  also have "\<dots> \<le> 1 / 2 * q"
    using assms round_half_even_error [of "x / q"] by (intro mult_right_mono) simp_all
  finally show ?thesis by simp
qed

lemma nearest_double_error: "\<bar>nearest_double x - x\<bar> \<le> quantum x / 2"
  unfolding nearest_double_def by (rule round_to_error) simp

lemma quantum_normal:
  assumes "2 powi (- 1022) \<le> \<bar>x\<bar>"
  shows "quantum x \<le> \<bar>x\<bar> / 2 ^ 52"
proof -
  have pos: "0 < \<bar>x\<bar>"
    using assms pow2_pos [of "- 1022"] by linarith
  from ilog2_bounds [OF pos] have b: "2 powi ilog2 \<bar>x\<bar> \<le> \<bar>x\<bar>" "\<bar>x\<bar> < 2 powi (ilog2 \<bar>x\<bar> + 1)"
    by simp_all
  have "(2::rat) powi (- 1022) < 2 powi (ilog2 \<bar>x\<bar> + 1)"
    using assms b(2) by linarith
  then have "- 1022 < ilog2 \<bar>x\<bar> + 1" by (rule pow2_less_cancel)
  then have "quantum x = 2 powi (ilog2 \<bar>x\<bar> - 52)"
    by (simp add: quantum_def max_def)
  also have "\<dots> = 2 powi ilog2 \<bar>x\<bar> / 2 ^ 52"
    by (rule pow2_shift)
  also have "\<dots> \<le> \<bar>x\<bar> / 2 ^ 52"
    using b(1) by (intro divide_right_mono) simp_all
  finally show ?thesis .
qed

lemma nearest_double_rel:
  assumes "2 powi (- 1022) \<le> \<bar>x\<bar>"
  shows "\<bar>nearest_double x - x\<bar> \<le> \<bar>x\<bar> / 2 ^ 53"
proof -
  have "\<bar>nearest_double x - x\<bar> \<le> quantum x / 2"
    by (rule nearest_double_error)
  also have "\<dots> \<le> (\<bar>x\<bar> / 2 ^ 52) / 2"
    using quantum_normal [OF assms] by simp
  finally show ?thesis by simp
qed

lemma nearest_double_abs:
  assumes "\<bar>x\<bar> \<le> B" "1 \<le> B"
  shows "\<bar>nearest_double x - x\<bar> \<le> B / 2 ^ 53"
proof (cases "2 powi (- 1022) \<le> \<bar>x\<bar>")
  case True
  from nearest_double_rel [OF this] have "\<bar>nearest_double x - x\<bar> \<le> \<bar>x\<bar> / 2 ^ 53" .
  also have "\<dots> \<le> B / 2 ^ 53"
    using assms(1) by (intro divide_right_mono) simp_all
  finally show ?thesis .
next
  case False
  then have small: "\<bar>x\<bar> < 2 powi (- 1022)" by simp
  have one: "(1::rat) / 2 ^ 53 \<le> B / 2 ^ 53"
    using assms(2) by (intro divide_right_mono) simp_all
  show ?thesis
  proof (cases "x = 0")
    case True
    then show ?thesis using assms(2) by simp
  next
    case False
    then have pos: "0 < \<bar>x\<bar>" by simp
    from ilog2_bounds [OF pos] small have "(2::rat) powi ilog2 \<bar>x\<bar> < 2 powi (- 1022)"
      by linarith
    then have "ilog2 \<bar>x\<bar> < - 1022" by (rule pow2_less_cancel)
    then have "quantum x = 2 powi (- 1074)"
      by (simp add: quantum_def max_def)
    then have "\<bar>nearest_double x - x\<bar> \<le> 2 powi (- 1074) / 2"
      using nearest_double_error [of x] by simp
    also have "(2::rat) powi (- 1074) \<le> 2 powi (- 52)"
      by (rule pow2_mono) simp
    then have "(2::rat) powi (- 1074) / 2 \<le> 2 powi (- 52) / 2"
      by simp
    also have "\<dots> = 1 / 2 ^ 53"
      using pow2_shift [of 0] by simp
    finally show ?thesis using one by linarith
  qed
qed


lemma nearest_double_one [simp]: "nearest_double 1 = 1"
  using nearest_double_pow2 [of 0] by simp

lemma round_double_Fin: "round_double x = Fin y \<Longrightarrow> y = nearest_double x"
  by (simp add: round_double_alt split: if_splits)

lemma round_double_PInf:
  assumes "round_double x = PInf"
  shows "2 powi 1023 < x"
proof (rule ccontr)
  assume "\<not> 2 powi 1023 < x"
  then have le: "x \<le> 2 powi 1023" by simp
  show False
  proof (cases "- (2 powi 1023) \<le> x")
    case True
    with le have "\<bar>x\<bar> \<le> 2 powi 1023" by simp
    from round_double_finite [OF this] assms show False by simp
  next
    case False
    then have "x \<le> 0" using pow2_pos [of 1023] by linarith
    then have "nearest_double x \<le> nearest_double 0" by (rule nearest_double_mono)
    then show False
      using assms pow2_pos [of 1024] by (simp add: round_double_alt split: if_splits)
  qed
qed

section \<open>Pricing engine: the expected output\<close>

lemma js_mul_commute: "js_mul a b = js_mul b a"
  by (cases a; cases b) (simp_all add: mult.commute)

lemma calculateExpectedSol_swap:
  "calculateExpectedSol x s t = calculateExpectedTokens x t s"
  by (simp add: calculateExpectedSol_def calculateExpectedTokens_def js_mul_commute [of s t])

lemma calculateExpectedTokens_Fin:
  assumes "round_double (s * t) = Fin k" "round_double (s + a) = Fin n" "n \<noteq> 0"
    and "round_double (k / n) = Fin q"
  shows "calculateExpectedTokens (Fin a) (Fin s) (Fin t) = round_double (t - q)"
  using assms by (simp add: calculateExpectedTokens_def js_sub_def)

lemma scenario_product:
  "round_double (of_int (30000000000 * 1000000000000)) = Fin (of_int (30000000000 * 1000000000000))"
  by (rule round_double_fix [where k = 7152557373046875 and j = 22]) simp_all

lemma scenario_sum:
  "round_double (of_int (30000000000 + 1000000000)) = Fin (of_int (30000000000 + 1000000000))"
  by (rule round_double_int) simp

lemma scenario_quotient:
  "round_double (30000000000000000000000 / 31000000000) = Fin (7927741935483871 / 8192)"
  using round_double_near [of 39 "30000000000000000000000 / 31000000000" 7927741935483871]
  by simp

lemma scenario_difference:
  "round_double (1000000000000 - 7927741935483871 / 8192) = Fin (264258064516129 / 8192)"
  using round_double_fix [of "264258064516129 / 8192" 264258064516129 "- 13"]
  by simp

lemma scenario_output:
  "calculateExpectedTokens (Fin 1000000000) (Fin 30000000000) (Fin 1000000000000) =
     Fin (264258064516129 / 8192)"
proof -
  have "calculateExpectedTokens (Fin 1000000000) (Fin 30000000000) (Fin 1000000000000) =
      round_double (1000000000000 - 7927741935483871 / 8192)"
    using scenario_product scenario_sum scenario_quotient
    by (intro calculateExpectedTokens_Fin [where k = 30000000000000000000000 and n = 31000000000])
      simp_all
  then show ?thesis
    by (simp only: scenario_difference)
qed

lemma product_bounds:
  assumes "1 \<le> s" "s \<le> 2 ^ 53" "1 \<le> t" "t \<le> 2 ^ 53"
  shows "(1::rat) \<le> of_int (s * t)" "(of_int (s * t) :: rat) \<le> 2 powi 106"
    "(of_int (s * t) :: rat) / 2 ^ 53 \<le> of_int t"
proof -
  have "1 * 1 \<le> s * t"
    using assms(1,3) by (intro mult_mono) simp_all
  then have "1 \<le> s * t" by simp
  then show "(1::rat) \<le> of_int (s * t)"
    by (simp only: of_int_1_le_iff)
  have "s * t \<le> 2 ^ 53 * 2 ^ 53"
    using assms by (intro mult_mono) simp_all
  then have "(of_int (s * t) :: rat) \<le> of_int (2 ^ 53 * 2 ^ 53)"
    by (simp only: of_int_le_iff)
  also have "\<dots> = 2 powi 106"
    using pow2_nat [of 106] by simp
  finally show "(of_int (s * t) :: rat) \<le> 2 powi 106" .
  have "s * t \<le> 2 ^ 53 * t"
    using assms by (intro mult_right_mono) simp_all
  then have "(of_int (s * t) :: rat) \<le> of_int (2 ^ 53 * t)"
    by (simp only: of_int_le_iff)
  then show "(of_int (s * t) :: rat) / 2 ^ 53 \<le> of_int t"
    by (simp add: field_simps)
qed

lemma product_rounded:
  assumes "1 \<le> s" "s \<le> 2 ^ 53" "1 \<le> t" "t \<le> 2 ^ 53"
  shows "round_double (of_int (s * t)) = Fin (nearest_double (of_int (s * t)))"
    "1 \<le> nearest_double (of_int (s * t))"
    "\<bar>nearest_double (of_int (s * t)) - of_int (s * t)\<bar> \<le> of_int (s * t) / 2 ^ 53"
proof -
  note b = product_bounds [OF assms]
  have abs: "\<bar>of_int (s * t) :: rat\<bar> = of_int (s * t)"
    using b(1) by linarith
  show "round_double (of_int (s * t)) = Fin (nearest_double (of_int (s * t)))"
    using b(2) abs by (intro round_double_finite [where e = 106]) simp_all
  show "1 \<le> nearest_double (of_int (s * t))"
    using nearest_double_mono [OF b(1)] by simp
  have "(2::rat) powi (- 1022) \<le> 2 powi 0"
    by (rule pow2_mono) simp
  then have "(2::rat) powi (- 1022) \<le> \<bar>of_int (s * t)\<bar>"
    using b(1) abs by simp
  from nearest_double_rel [OF this] abs
  show "\<bar>nearest_double (of_int (s * t)) - of_int (s * t)\<bar> \<le> of_int (s * t) / 2 ^ 53"
    by simp
qed



text \<open>The rounded quotient of the rounded product by the rounded sum, against the exact
  quotient.\<close>

lemma quotient_error:
  fixes P N k n t :: rat
  assumes "1 \<le> N" "0 \<le> P" "P \<le> t * N"
    and "\<bar>k - P\<bar> \<le> P / 2 ^ 53" "\<bar>n - N\<bar> \<le> N / 2 ^ 53"
  shows "0 < n" "\<bar>k / n - P / N\<bar> \<le> 3 * t / 2 ^ 53"
proof -
  define u :: rat where "u = 1 / 2 ^ 53"
  define \<rho> where "\<rho> = P / N"
  define \<delta> where "\<delta> = k / n - \<rho>"
  have u: "0 < u" "u \<le> 1 / 3" by (simp_all add: u_def)
  have kP: "\<bar>k - P\<bar> \<le> u * P" and nN: "\<bar>n - N\<bar> \<le> u * N"
    using assms(4,5) by (simp_all add: u_def)
  have "u * N \<le> 1 / 3 * N"
    using u(2) assms(1) by (intro mult_right_mono) simp_all
  with nN have n23: "2 / 3 * N \<le> n" by linarith
  with assms(1) show npos: "0 < n" by linarith
  have \<rho>: "0 \<le> \<rho>" "\<rho> \<le> t" "\<rho> * N = P"
    using assms(1,2,3) by (simp_all add: \<rho>_def field_simps)
  have "\<delta> * n = (k - P) - \<rho> * (n - N)"
    using npos \<rho>(3) by (simp add: \<delta>_def field_simps)
  moreover have "\<bar>\<delta>\<bar> * n = \<bar>\<delta> * n\<bar>"
    using npos by (simp add: abs_mult)
  ultimately have "\<bar>\<delta>\<bar> * n = \<bar>(k - P) - \<rho> * (n - N)\<bar>"
    by simp
  also have "\<dots> \<le> \<bar>k - P\<bar> + \<bar>\<rho> * (n - N)\<bar>"
    by (rule abs_triangle_ineq4)
  also have "\<bar>\<rho> * (n - N)\<bar> = \<rho> * \<bar>n - N\<bar>"
    using \<rho>(1) by (simp add: abs_mult)
  also have "\<rho> * \<bar>n - N\<bar> \<le> \<rho> * (u * N)"
    using nN \<rho>(1) by (rule mult_left_mono)
  also have "\<rho> * (u * N) = u * (\<rho> * N)"
    by (rule mult.left_commute)
  also have "\<dots> = u * P"
    by (simp only: \<rho>(3))
  finally have "\<bar>\<delta>\<bar> * n \<le> \<bar>k - P\<bar> + u * P" by simp
  with kP have 1: "\<bar>\<delta>\<bar> * n \<le> 2 * (u * P)" by linarith
  have "\<bar>\<delta>\<bar> * (2 / 3 * N) \<le> \<bar>\<delta>\<bar> * n"
    using n23 by (intro mult_left_mono) simp_all
  then have "\<bar>\<delta>\<bar> * (2 / 3 * N) \<le> 2 * (u * P)"
    using 1 by (rule order_trans)
  then have "\<bar>\<delta>\<bar> * (2 / 3 * N) \<le> 2 * (u * (\<rho> * N))"
    by (simp only: \<rho>(3))
  then have "(\<bar>\<delta>\<bar> * (2 / 3)) * N \<le> (2 * (u * \<rho>)) * N"
    by (simp only: mult.assoc)
  moreover have "0 < N" using assms(1) by linarith
  ultimately have "\<bar>\<delta>\<bar> * (2 / 3) \<le> 2 * (u * \<rho>)"
    by (rule mult_right_le_imp_le)
  then have "\<bar>\<delta>\<bar> \<le> 3 * (u * \<rho>)" by linarith
  also have "u * \<rho> \<le> u * t"
    using \<rho>(2) u(1) by (intro mult_left_mono) simp_all
  finally have "\<bar>\<delta>\<bar> \<le> 3 * (u * t)" by simp
  then show "\<bar>k / n - P / N\<bar> \<le> 3 * t / 2 ^ 53"
    by (simp add: \<delta>_def \<rho>_def u_def)
qed

lemma expected_tokens_accuracy:
  assumes "0 \<le> a" "1 \<le> s" "s \<le> 2 ^ 53" "1 \<le> t" "t \<le> 2 ^ 53"
  shows "\<exists>r. calculateExpectedTokens (Fin (of_int a)) (Fin (of_int s)) (Fin (of_int t)) = Fin r \<and>
             \<bar>r - (of_int t - of_int (s * t) / of_int (s + a))\<bar> \<le> 6 * of_int t / 2 ^ 53"
proof -
  define P :: rat where "P = of_int (s * t)"
  define N :: rat where "N = of_int (s + a)"
  define T :: rat where "T = of_int t"
  define k where "k = nearest_double P"
  define n where "n = round_double N"
  note p = product_rounded [OF assms(2-5), folded P_def, folded k_def]
  note b = product_bounds [OF assms(2-5), folded P_def, folded T_def]
  have "(of_int t :: rat) \<le> of_int (2 ^ 53)"
    using assms(5) by (simp only: of_int_le_iff)
  then have T: "1 \<le> T" "T \<le> 2 ^ 53"
    using assms(4) by (simp_all add: T_def)
  have sN: "(of_int s :: rat) \<le> N" "1 \<le> N"
    using assms(1,2) by (simp_all add: N_def)
  have "P = of_int s * T" by (simp add: P_def T_def)
  also have "\<dots> \<le> N * T"
    using sN(1) T(1) by (intro mult_right_mono) simp_all
  finally have PN: "P \<le> T * N" by (simp add: mult.commute)
  have P0: "0 \<le> P" using b(1) by simp
  have k: "js_mul (Fin (of_int s)) (Fin (of_int t)) = Fin k"
    using p(1) by (simp add: P_def)
  have n: "js_add (Fin (of_int s)) (Fin (of_int a)) = n"
    by (simp add: n_def N_def)
  have "js_le (round_double (of_int s)) n"
    unfolding n_def using sN(1) by (rule round_double_mono)
  then have sn: "js_le (Fin (of_int s)) n"
    using round_double_int [of s] assms(2,3) by simp
  have rt: "round_double T = Fin T"
    unfolding T_def using assms(4,5) by (intro round_double_int) simp
  show ?thesis
  proof (cases n)
    case (Fin nv)
    then have nv: "nv = nearest_double N"
      unfolding n_def by (rule round_double_Fin)
    have "(2::rat) powi (- 1022) \<le> 2 powi 0"
      by (rule pow2_mono) simp
    then have "(2::rat) powi (- 1022) \<le> \<bar>N\<bar>"
      using sN(2) by simp
    from nearest_double_rel [OF this] sN(2) have nN: "\<bar>nv - N\<bar> \<le> N / 2 ^ 53"
      by (simp add: nv)
    from quotient_error [OF sN(2) P0 PN p(3) nN]
    have nvpos: "0 < nv" and qe: "\<bar>k / nv - P / N\<bar> \<le> 3 * T / 2 ^ 53" .
    define \<rho> where "\<rho> = P / N"
    have \<rho>: "0 \<le> \<rho>" "\<rho> \<le> T"
      using P0 PN sN(2) by (simp_all add: \<rho>_def field_simps)
    define x where "x = k / nv"
    have x0: "0 \<le> x" using p(2) nvpos by (simp add: x_def)
    have "3 * T / 2 ^ 53 \<le> T" using T(1) by simp
    with qe \<rho>(2) have x2: "x \<le> 2 * T"
      unfolding x_def \<rho>_def by linarith
    have "2 * T \<le> 2 powi 54"
      using T(2) pow2_nat [of 54] by simp
    with x0 x2 have "\<bar>x\<bar> \<le> 2 powi 54" by linarith
    then have rx: "round_double x = Fin (nearest_double x)"
      by (rule round_double_finite) simp
    define q where "q = nearest_double x"
    have q0: "0 \<le> q"
      unfolding q_def using x0 by (rule nearest_double_nonneg)
    have "\<bar>x\<bar> \<le> 2 * T" using x0 x2 by simp
    then have "\<bar>q - x\<bar> \<le> 2 * T / 2 ^ 53"
      unfolding q_def using T(1) by (intro nearest_double_abs) simp_all
    with qe have q\<rho>: "\<bar>q - \<rho>\<bar> \<le> 5 * T / 2 ^ 53"
      unfolding x_def \<rho>_def by linarith
    have "5 * T / 2 ^ 53 \<le> T" using T(1) by simp
    with q\<rho> \<rho> q0 have d: "\<bar>T - q\<bar> \<le> T" by linarith
    have "T \<le> 2 powi 53"
      using T(2) pow2_nat [of 53] by simp
    with d have "\<bar>T - q\<bar> \<le> 2 powi 53" by linarith
    then have rd: "round_double (T - q) = Fin (nearest_double (T - q))"
      by (rule round_double_finite) simp
    have "\<bar>nearest_double (T - q) - (T - q)\<bar> \<le> T / 2 ^ 53"
      using d T(1) by (rule nearest_double_abs)
    with q\<rho> have acc: "\<bar>nearest_double (T - q) - (T - \<rho>)\<bar> \<le> 6 * T / 2 ^ 53"
      by linarith
    have "calculateExpectedTokens (Fin (of_int a)) (Fin (of_int s)) (Fin (of_int t)) =
          round_double (T - q)"
      unfolding calculateExpectedTokens_def Let_def k n Fin
      using nvpos rx by (simp add: js_sub_def x_def q_def T_def)
    with rd acc show ?thesis
      by (simp add: \<rho>_def P_def N_def T_def)
  next
    case PInf
    have "calculateExpectedTokens (Fin (of_int a)) (Fin (of_int s)) (Fin (of_int t)) =
          round_double T"
      unfolding calculateExpectedTokens_def Let_def k n PInf
      by (simp add: js_sub_def T_def)
    then have res: "calculateExpectedTokens (Fin (of_int a)) (Fin (of_int s)) (Fin (of_int t)) = Fin T"
      by (simp only: rt)
    have "(2::rat) powi 106 \<le> 2 powi 1023"
      by (rule pow2_mono) simp
    also have "\<dots> < N"
      using PInf unfolding n_def by (rule round_double_PInf)
    finally have big: "2 powi 106 < N" .
    have "P * 2 ^ 53 \<le> T * 2 ^ 53 * 2 ^ 53"
      using b(3) by (simp add: field_simps)
    also have "\<dots> \<le> T * N"
      using big pow2_nat [of 106] T(1) by simp
    finally have "P / N \<le> T / 2 ^ 53"
      using sN(2) by (simp add: field_simps)
    moreover have "0 \<le> P / N" using P0 sN(2) by simp
    moreover have "T / 2 ^ 53 \<le> 6 * T / 2 ^ 53" using T(1) by simp
    ultimately have "\<bar>P / N\<bar> \<le> 6 * T / 2 ^ 53" by linarith
    then have "\<bar>T - (T - P / N)\<bar> \<le> 6 * T / 2 ^ 53" by (simp only: diff_diff_eq2 add_diff_cancel_left')
    with res show ?thesis
      by (simp add: P_def N_def T_def)
  next
    case NInf
    then show ?thesis using sn by simp
  next
    case NaN
    then show ?thesis using sn by simp
  qed
qed

text \<open>
  Claim C1, as amended. For a non-negative integer amount and positive integer reserves
  of at most \<open>2^53\<close>, the buy output is a finite number within
  \<open>6 * tokenReserve / 2^53\<close> of
  \<open>tokenReserve - (solReserve * tokenReserve) / (solReserve + amountIn)\<close>: it is that
  expression evaluated in double precision, each operation rounded to nearest, the
  division being floating-point, not integer, division. The sell output is the same
  function with the roles of the two reserves swapped. In the scenario the output is
  \<open>264258064516129 / 8192\<close>, about \<open>32258064516.129\<close>.
\<close>

theorem expected_out_accuracy:
  assumes "0 \<le> a" "1 \<le> s" "s \<le> 2 ^ 53" "1 \<le> t" "t \<le> 2 ^ 53"
  shows "(\<exists>r. calculateExpectedTokens (Fin (of_int a)) (Fin (of_int s)) (Fin (of_int t)) = Fin r \<and>
              \<bar>r - (of_int t - of_int (s * t) / of_int (s + a))\<bar> \<le> 6 * of_int t / 2 ^ 53) \<and>
         calculateExpectedSol x u v = calculateExpectedTokens x v u \<and>
         calculateExpectedTokens (Fin 1000000000) (Fin 30000000000) (Fin 1000000000000) =
           Fin (264258064516129 / 8192)"
  using expected_tokens_accuracy [OF assms] calculateExpectedSol_swap scenario_output
  by blast

theorem expected_out_accuracy_witness:
  "(0::int) \<le> 1000000000 \<and> (1::int) \<le> 30000000000 \<and> (30000000000::int) \<le> 2 ^ 53 \<and>
   (1::int) \<le> 1000000000000 \<and> (1000000000000::int) \<le> 2 ^ 53 \<and>
   calculateExpectedTokens (Fin 1000000000) (Fin 30000000000) (Fin 1000000000000) =
     Fin (264258064516129 / 8192) \<and>
   \<bar>264258064516129 / 8192 - (1000000000000 - 30000000000000000000000 / 31000000000)\<bar>
     \<le> (6 * 1000000000000 / 2 ^ 53 :: rat) \<and>
   calculateExpectedSol (Fin 1000000000) (Fin 1000000000000) (Fin 30000000000) =
     calculateExpectedTokens (Fin 1000000000) (Fin 30000000000) (Fin 1000000000000)"
proof -
  have h: "(0::int) \<le> 1000000000" "(1::int) \<le> 30000000000" "(30000000000::int) \<le> 2 ^ 53"
    "(1::int) \<le> 1000000000000" "(1000000000000::int) \<le> 2 ^ 53"
    by simp_all
  from expected_out_accuracy [OF h, of "Fin 1000000000" "Fin 1000000000000" "Fin 30000000000"]
  obtain r where r: "calculateExpectedTokens (Fin (of_int 1000000000)) (Fin (of_int 30000000000))
        (Fin (of_int 1000000000000)) = Fin r"
      "\<bar>r - (of_int 1000000000000 - of_int (30000000000 * 1000000000000) /
          of_int (30000000000 + 1000000000))\<bar> \<le> 6 * of_int 1000000000000 / 2 ^ 53"
    and s: "calculateExpectedSol (Fin 1000000000) (Fin 1000000000000) (Fin 30000000000) =
      calculateExpectedTokens (Fin 1000000000) (Fin 30000000000) (Fin 1000000000000)"
    and v: "calculateExpectedTokens (Fin 1000000000) (Fin 30000000000) (Fin 1000000000000) =
      Fin (264258064516129 / 8192)"
    by blast
  from r(1) v have "r = 264258064516129 / 8192"
    by simp
  with r(2) have "\<bar>264258064516129 / 8192 - (1000000000000 - 30000000000000000000000 / 31000000000)\<bar>
     \<le> (6 * 1000000000000 / 2 ^ 53 :: rat)"
    by simp
  then show ?thesis
    using h s v by blast
qed

text \<open>In the scenario the output is not an integer: it is not the value integer
  division gives, \<open>32258064517\<close>.\<close>

theorem scenario_not_integer_division:
  "calculateExpectedTokens (Fin 1000000000) (Fin 30000000000) (Fin 1000000000000) =
     Fin (264258064516129 / 8192) \<and>
   calculateExpectedTokens (Fin 1000000000) (Fin 30000000000) (Fin 1000000000000) \<noteq>
     Fin (of_int (1000000000000 - (30000000000 * 1000000000000) div (30000000000 + 1000000000)))"
  by (simp add: scenario_output)

















section \<open>A complete buy\<close>

text \<open>The scenario carried through \<open>buyToken\<close>: 1 SOL at a slippage of 500 basis
  points against the example token. The receiving account is created, the minimum is
  \<open>30645161290\<close> token units, and three calls go to the network: the account lookup,
  the blockhash and the submission.\<close>

lemma example_lamports:
  "Math_floor (js_mul (Fin 1) LAMPORTS_PER_SOL) = Fin 1000000000"
  using round_double_int [of 1000000000] by (simp add: LAMPORTS_PER_SOL_def)

lemma example_slippage:
  "js_sub (Fin 1) (js_div (Fin 500) (Fin 10000)) = Fin (4278419646001971 / 4503599627370496)"
proof -
  have "round_double (500 / 10000) = Fin (3602879701896397 / 72057594037927936)"
    using round_double_near [of "- 5" "500 / 10000" 7205759403792794] by simp
  moreover have "round_double (1 - 3602879701896397 / 72057594037927936) =
      Fin (4278419646001971 / 4503599627370496)"
    using round_double_near [of "- 1" "1 - 3602879701896397 / 72057594037927936" 8556839292003942]
    by simp
  ultimately show ?thesis
    by (simp add: js_sub_def)
qed

lemma example_minTokens:
  "Math_floor (js_mul (Fin (264258064516129 / 8192)) (Fin (4278419646001971 / 4503599627370496))) =
     Fin 30645161290"
proof -
  have "round_double (264258064516129 / 8192 * (4278419646001971 / 4503599627370496)) =
      Fin (8033445161290321 / 262144)"
    using round_double_near [of 34 "264258064516129 / 8192 * (4278419646001971 / 4503599627370496)"
        8033445161290321]
    by simp
  moreover have "\<lfloor>8033445161290321 / 262144 :: rat\<rfloor> = 30645161290"
    by (rule floor_unique) simp_all
  ultimately show ?thesis
    by simp
qed

lemma example_amountOut:
  "js_div (Fin (264258064516129 / 8192)) (Fin 1000000) = Fin (8867029256258063 / 274877906944)"
  using round_double_near [of 14 "264258064516129 / 8192 / 1000000" 8867029256258063]
  by simp

lemma buy_example:
  "buyToken example_externals example_config \<lparr> wallet = Some \<lparr> publicKey = PublicKey ''trader'' \<rparr> \<rparr>
     example_token (Fin 1) =
     (\<lparr> success = True, signature = Some ''signature'', error = None, amountIn = Fin 1,
        amountOut = Some (Fin (8867029256258063 / 274877906944)) \<rparr>,
      [GetAccountInfo (PublicKey ''ata''), GetLatestBlockhash,
       SendAndConfirmTransaction
         \<lparr> instructions =
             [\<lparr> programId = PublicKey ''ATokenProgram'', keys = [], data = [] \<rparr>,
              \<lparr> programId = PUMP_FUN_PROGRAM_ID,
                keys = required_accounts (PublicKey ''trader'') (PublicKey ''mint'')
                         (PublicKey ''curve'') (PublicKey ''vault'') (PublicKey ''ata''),
                data = buy_discriminator @ le_bytes 8 30645161290 @ le_bytes 8 1000000000 \<rparr>],
           recentBlockhash = ''blockhash'', feePayer = PublicKey ''trader'' \<rparr>])"
proof -
  have b: "buildBuyInstruction (PublicKey ''trader'') (PublicKey ''mint'') (PublicKey ''curve'')
      (PublicKey ''vault'') (PublicKey ''ata'') (Fin 1000000000) (Fin 30645161290) =
     Inr \<lparr> programId = PUMP_FUN_PROGRAM_ID,
           keys = required_accounts (PublicKey ''trader'') (PublicKey ''mint'') (PublicKey ''curve'')
                    (PublicKey ''vault'') (PublicKey ''ata''),
           data = buy_discriminator @ le_bytes 8 30645161290 @ le_bytes 8 1000000000 \<rparr>"
    using buildBuyInstruction_ok [of 30645161290 1000000000] by simp
  show ?thesis
    by (simp add: buyToken_def buy_attempt_def example_externals_def example_config_def
        example_token_def js_gt_def example_lamports scenario_output example_slippage
        example_minTokens example_amountOut b
        del: js_mul.simps js_div.simps js_add.simps)
qed

end
